theory Spec2Isabelle
  imports Complex_Main "HOL-Library.Monad_Syntax"
begin

section \<open>Speech-metrics analysis engine of voice\_meter\<close>

text \<open>
  A shallow embedding of \<^verbatim>\<open>backend/app/services/speech_analysis_service.py\<close> and of the
  helpers of \<^verbatim>\<open>backend/app/utils/metrics.py\<close> and \<^verbatim>\<open>backend/app/utils/text.py\<close>
  that the stated properties are about.

  Conventions of the embedding.
  \<^item> A Python \<^verbatim>\<open>str\<close> is a \<^typ>\<open>string\<close>; the character \<open>c\<close> stands for the Unicode code
    point \<open>of_char c\<close>, so the transcripts covered are those over code points 0 to 255
    (ASCII and Latin-1, which holds every letter of the lexical tables and of the regular
    expressions of the source). \<open>CHR 0xE3\<close> is the letter a with tilde, and so on.
  \<^item> A Python \<^verbatim>\<open>float\<close> is a \<^typ>\<open>rat\<close>: arithmetic is exact, there is no NaN and no
    infinity. Python \<^verbatim>\<open>int\<close> counters are \<^typ>\<open>nat\<close>. Binary doubles differ from the exact
    values by a tiny relative error only, but where a value sits exactly on a
    threshold or on a rounding tie, the source may fall on the other side. A property that
    would depend on this is stated with a margin of one unit of the last decimal kept and
    with strict comparisons of the exact values.
  \<^item> A computation that can raise (\<^verbatim>\<open>ZeroDivisionError\<close> of \<^verbatim>\<open>/\<close>, \<^verbatim>\<open>ValueError\<close> of
    \<^verbatim>\<open>max\<close> on an empty list) returns an \<^typ>\<open>'a option\<close>, \<open>None\<close> being the exception.
\<close>

subsection \<open>Python primitives\<close>

text \<open>\<^verbatim>\<open>a / b\<close> on numbers.\<close>

definition fdiv :: "rat \<Rightarrow> rat \<Rightarrow> rat option" where
  "fdiv a b = (if b = 0 then None else Some (a / b))"

text \<open>\<^verbatim>\<open>max(xs)\<close> on a list.\<close>

definition py_max :: "rat list \<Rightarrow> rat option" where
  "py_max xs = (case xs of [] \<Rightarrow> None | x # ys \<Rightarrow> Some (fold max ys x))"

text \<open>
  \<^verbatim>\<open>round(x, n)\<close>: to \<open>n\<close> decimal places, a tie going to the even neighbour. Python
  rounds the binary double that stands for \<open>x\<close>, which at a tie of the decimal value may
  lie on either side of it; \<open>py_round\<close> rounds the exact value.
\<close>

definition round_half_even :: "rat \<Rightarrow> int" where
  "round_half_even s =
     (let f = \<lfloor>s\<rfloor>; d = s - of_int f
      in if d < 1 / 2 then f else if 1 / 2 < d then f + 1 else if even f then f else f + 1)"

definition py_round :: "rat \<Rightarrow> nat \<Rightarrow> rat" where
  "py_round x n = of_int (round_half_even (x * 10 ^ n)) / 10 ^ n"

text \<open>\<^verbatim>\<open>str.isspace\<close>, \<^verbatim>\<open>str.lower\<close> and the class \<^verbatim>\<open>\w\<close> of \<^verbatim>\<open>re\<close> on code points below 256.\<close>

definition is_space :: "char \<Rightarrow> bool" where
  "is_space c =
     (let n = (of_char c :: nat)
      in (9 \<le> n \<and> n \<le> 13) \<or> (28 \<le> n \<and> n \<le> 32) \<or> n = 133 \<or> n = 160)"

definition lower_char :: "char \<Rightarrow> char" where
  "lower_char c =
     (let n = (of_char c :: nat)
      in if (65 \<le> n \<and> n \<le> 90) \<or> (192 \<le> n \<and> n \<le> 222 \<and> n \<noteq> 215)
         then char_of (n + 32) else c)"

definition lower :: "string \<Rightarrow> string" where
  "lower s = map lower_char s"

definition is_word_char :: "char \<Rightarrow> bool" where
  "is_word_char c =
     (let n = (of_char c :: nat)
      in (48 \<le> n \<and> n \<le> 57) \<or> (65 \<le> n \<and> n \<le> 90) \<or> n = 95 \<or> (97 \<le> n \<and> n \<le> 122)
         \<or> n = 170 \<or> n = 178 \<or> n = 179 \<or> n = 181 \<or> n = 185 \<or> n = 186
         \<or> n = 188 \<or> n = 189 \<or> n = 190
         \<or> (192 \<le> n \<and> n \<le> 214) \<or> (216 \<le> n \<and> n \<le> 246) \<or> (248 \<le> n \<and> n \<le> 255))"

text \<open>\<^verbatim>\<open>s.strip()\<close>, \<^verbatim>\<open>s.split()\<close> and \<^verbatim>\<open>s.endswith(t)\<close>.\<close>

definition strip :: "string \<Rightarrow> string" where
  "strip s = rev (dropWhile is_space (rev (dropWhile is_space s)))"

fun split_ws :: "string \<Rightarrow> string \<Rightarrow> string list" where
  "split_ws cur [] = (if cur = [] then [] else [rev cur])"
| "split_ws cur (c # cs) =
     (if is_space c then (if cur = [] then split_ws [] cs else rev cur # split_ws [] cs)
      else split_ws (c # cur) cs)"

definition split :: "string \<Rightarrow> string list" where
  "split s = split_ws [] s"

definition endswith :: "string \<Rightarrow> string \<Rightarrow> bool" where
  "endswith w suffix = (length suffix \<le> length w \<and> drop (length w - length suffix) w = suffix)"

subsection \<open>Lexical tables\<close>

definition PORTUGUESE_VOWELS :: "char set" where
  "PORTUGUESE_VOWELS = set (''aeiou'' @
     [CHR 0xE1, CHR 0xE9, CHR 0xED, CHR 0xF3, CHR 0xFA, CHR 0xE0, CHR 0xE8, CHR 0xEC, CHR 0xF2,
      CHR 0xF9, CHR 0xE2, CHR 0xEA, CHR 0xEE, CHR 0xF4, CHR 0xFB, CHR 0xE3, CHR 0xF5, CHR 0xE4,
      CHR 0xEB, CHR 0xEF, CHR 0xF6, CHR 0xFC])"

definition PORTUGUESE_DIGRAPHS :: "string list" where
  "PORTUGUESE_DIGRAPHS =
    [''lh'', ''nh'', ''ch'', ''rr'', ''ss'', ''qu'', ''gu'']"

definition PORTUGUESE_FILLERS :: "string set" where
  "PORTUGUESE_FILLERS = set
    [[CHR 0xE9], ''hum'', ''uhm'', ''ah'', ''eh'', ''ahn'', ''ent'' @ [CHR 0xE3] @ ''o'',
     ''tipo'', ''n'' @ [CHR 0xE9], ''sabe'', ''entende'', ''assim'', ''bom'', ''bem'',
     ''olha'', ''veja'', ''pois'', ''enfim'', ''basicamente'', ''literalmente'']"

definition PORTUGUESE_FUNCTION_WORDS :: "string set" where
  "PORTUGUESE_FUNCTION_WORDS = set
    [''o'', ''a'', ''os'', ''as'', ''um'', ''uma'', ''uns'', ''umas'', ''de'', ''da'', ''do'',
     ''das'', ''dos'', ''em'', ''na'', ''no'', ''nas'', ''nos'', ''por'', ''para'', ''com'',
     ''sem'', ''sob'', ''sobre'', ''e'', ''ou'', ''mas'', ''por'' @ [CHR 0xE9] @ ''m'',
     ''contudo'', ''todavia'', ''que'', ''qual'', ''quais'', ''quem'', ''onde'', ''quando'',
     ''como'', ''eu'', ''tu'', ''ele'', ''ela'', ''n'' @ [CHR 0xF3] @ ''s'',
     ''v'' @ [CHR 0xF3] @ ''s'', ''eles'', ''elas'', ''me'', ''te'', ''se'', ''nos'', ''vos'',
     ''lhe'', ''lhes'', ''meu'', ''minha'', ''teu'', ''tua'', ''seu'', ''sua'', ''nosso'',
     ''nossa'', ''este'', ''esta'', ''esse'', ''essa'', ''aquele'', ''aquela'', ''isto'',
     ''isso'', ''aquilo'', ''ser'', ''estar'', ''ter'', ''haver'', [CHR 0xE9],
     ''s'' @ [CHR 0xE3] @ ''o'', ''foi'', ''foram'', ''ser'' @ [CHR 0xE1], ''seria'']"

definition PORTUGUESE_COMPLEX_SUFFIXES :: "string list" where
  "PORTUGUESE_COMPLEX_SUFFIXES =
    [''mente'', [CHR 0xE7, CHR 0xE3] @ ''o'', [CHR 0xE7, CHR 0xF5] @ ''es'', ''dade'',
     ''ismo'', ''ista'', [CHR 0xED] @ ''vel'', [CHR 0xE1] @ ''vel'', [CHR 0xEA] @ ''ncia'',
     [CHR 0xE2] @ ''ncia'', ''mento'', ''tivo'']"

definition ENGLISH_VOWELS :: "char set" where
  "ENGLISH_VOWELS = set ''aeiouy''"

definition ENGLISH_FILLERS :: "string set" where
  "ENGLISH_FILLERS = set
    [''um'', ''uh'', ''uhm'', ''er'', ''ah'', ''like'', ''you know'', ''basically'',
     ''literally'', ''actually'', ''honestly'', ''right'', ''okay'', ''so'', ''well'',
     ''i mean'', ''kind of'', ''sort of'', ''anyway'', ''whatever'']"

definition ENGLISH_FUNCTION_WORDS :: "string set" where
  "ENGLISH_FUNCTION_WORDS = set
    [''the'', ''a'', ''an'', ''this'', ''that'', ''these'', ''those'', ''i'', ''you'', ''he'',
     ''she'', ''it'', ''we'', ''they'', ''me'', ''him'', ''her'', ''us'', ''them'', ''my'',
     ''your'', ''his'', ''her'', ''its'', ''our'', ''their'', ''mine'', ''yours'', ''hers'',
     ''ours'', ''theirs'', ''is'', ''am'', ''are'', ''was'', ''were'', ''be'', ''been'',
     ''being'', ''have'', ''has'', ''had'', ''do'', ''does'', ''did'', ''will'', ''would'',
     ''shall'', ''should'', ''can'', ''could'', ''may'', ''might'', ''must'', ''and'', ''or'',
     ''but'', ''if'', ''because'', ''as'', ''until'', ''while'', ''of'', ''at'', ''by'',
     ''for'', ''with'', ''about'', ''against'', ''between'', ''into'', ''through'', ''during'',
     ''before'', ''after'', ''above'', ''below'', ''to'', ''from'', ''up'', ''down'', ''in'',
     ''out'', ''on'', ''off'', ''over'', ''under'', ''who'', ''whom'', ''which'', ''what'',
     ''where'', ''when'', ''why'', ''how'', ''all'', ''each'', ''every'', ''both'', ''few'',
     ''more'', ''most'', ''other'', ''some'', ''such'', ''no'', ''nor'', ''not'', ''only'',
     ''own'', ''same'', ''so'', ''than'', ''too'', ''very'', ''just'', ''also'', ''now'',
     ''here'', ''there'', ''then'']"

definition ENGLISH_COMPLEX_SUFFIXES :: "string list" where
  "ENGLISH_COMPLEX_SUFFIXES =
    [''tion'', ''sion'', ''ness'', ''ment'', ''able'', ''ible'', ''ful'', ''less'', ''ous'',
     ''ive'', ''ity'', ''ism'', ''ist'', ''ology'', ''ical'', ''ally'']"

definition PORTUGUESE_MARKERS :: "string set" where
  "PORTUGUESE_MARKERS = set
    [''que'', ''n'' @ [CHR 0xE3] @ ''o'', ''uma'', ''para'', ''com'', ''est'' @ [CHR 0xE1],
     ''isso'', ''mais'', ''como'', ''mas'', ''por'', ''muito'', ''tamb'' @ [CHR 0xE9] @ ''m'',
     ''foi'', ''s'' @ [CHR 0xE3] @ ''o'', ''tem'', ''seu'', ''sua'', ''ele'', ''ela'',
     ''voc'' @ [CHR 0xEA], ''n'' @ [CHR 0xF3] @ ''s'', ''eles'', ''nosso'', ''esse'', ''essa'',
     ''aqui'', ''onde'', ''quando'', ''porque'', ''ent'' @ [CHR 0xE3] @ ''o'',
     ''at'' @ [CHR 0xE9], ''depois'', ''agora'', ''sempre'', ''ainda'', ''apenas'', ''sobre'',
     ''j'' @ [CHR 0xE1], ''fazer'', ''pode'', ''deve'', ''vai'', ''vou'', ''estou'', ''tinha'',
     ''seria'', ''podemos'', ''temos'', ''precisamos'', ''conseguimos'']"

definition ENGLISH_MARKERS :: "string set" where
  "ENGLISH_MARKERS = set
    [''the'', ''and'', ''that'', ''have'', ''for'', ''not'', ''with'', ''you'', ''this'',
     ''but'', ''his'', ''from'', ''they'', ''were'', ''been'', ''have'', ''their'', ''would'',
     ''there'', ''what'', ''about'', ''which'', ''when'', ''make'', ''can'', ''will'',
     ''more'', ''these'', ''want'', ''way'', ''could'', ''people'', ''than'', ''first'',
     ''been'', ''who'', ''its'', ''now'', ''find'', ''because'', ''should'', ''think'',
     ''know'', ''going'', ''need'', ''really'']"

definition COMPLEX_WORD_MIN_LENGTH :: nat where
  "COMPLEX_WORD_MIN_LENGTH = 10"

subsection \<open>Result records\<close>

record SpeechRateMetrics =
  speaking_rate_spm :: rat
  articulation_rate_spm :: rat
  words_per_minute :: rat
  total_duration_seconds :: rat
  speech_duration_seconds :: rat
  pause_duration_seconds :: rat
  classification :: string

record PauseMetrics =
  total_pauses :: nat
  total_pause_duration :: rat
  average_pause_duration :: rat
  longest_pause :: rat
  pauses_per_minute :: rat
  pause_ratio :: rat

record VocabularyMetrics =
  total_words :: nat
  unique_words :: nat
  vocabulary_richness :: rat
  average_word_length :: rat
  complex_words_count :: nat
  complex_words_ratio :: rat
  filler_words_count :: nat
  filler_words_ratio :: rat
  lexical_density :: rat

record FluencyMetrics =
  fluency_score :: rat
  hesitation_rate :: rat
  repetition_count :: nat
  self_corrections_count :: nat
  incomplete_sentences :: nat

record LanguageDetection =
  detected_language :: string
  confidence :: rat
  portuguese_score :: rat
  english_score :: rat

text \<open>
  A segment is a dictionary read with \<^verbatim>\<open>.get('start', 0)\<close> and \<^verbatim>\<open>.get('end', 0)\<close>: either key
  may be absent. The segment list itself is optional.
\<close>

record segment =
  seg_start :: "rat option"
  seg_end :: "rat option"

definition get_start :: "segment \<Rightarrow> rat" where
  "get_start s = (case seg_start s of None \<Rightarrow> 0 | Some v \<Rightarrow> v)"

definition get_end :: "segment \<Rightarrow> rat" where
  "get_end s = (case seg_end s of None \<Rightarrow> 0 | Some v \<Rightarrow> v)"

subsection \<open>Word extraction\<close>

text \<open>
  \<^verbatim>\<open>re.findall(r'\b[a-z...]+\b', text.lower())\<close>. \<open>word_letter\<close> is the bracketed class.
  The scan keeps whether the previous character is a \<^verbatim>\<open>\w\<close> character. A match can only
  start after a non-word character (or at the start); the greedy run of class letters is a
  match when a non-word character (or the end) follows it, and then the scan resumes behind
  it; otherwise no shorter run ends at a boundary either and the scan moves on by one
  character.
\<close>

definition word_letter :: "char \<Rightarrow> bool" where
  "word_letter c =
     (c \<in> set ''abcdefghijklmnopqrstuvwxyz'' \<or>
      c \<in> set [CHR 0xE1, CHR 0xE9, CHR 0xED, CHR 0xF3, CHR 0xFA, CHR 0xE0, CHR 0xE8, CHR 0xEC,
                 CHR 0xF2, CHR 0xF9, CHR 0xE2, CHR 0xEA, CHR 0xEE, CHR 0xF4, CHR 0xFB, CHR 0xE3,
                 CHR 0xF5, CHR 0xE4, CHR 0xEB, CHR 0xEF, CHR 0xF6, CHR 0xFC, CHR 0xE7])"

function findall_words :: "bool \<Rightarrow> string \<Rightarrow> string list" where
  "findall_words prev_word [] = []"
| "findall_words prev_word (c # cs) =
     (if \<not> prev_word \<and> word_letter c then
        (let run = takeWhile word_letter (c # cs); rest = dropWhile word_letter (c # cs)
         in if (case rest of [] \<Rightarrow> True | d # _ \<Rightarrow> \<not> is_word_char d)
            then run # findall_words True rest
            else findall_words (is_word_char c) cs)
      else findall_words (is_word_char c) cs)"
  by pat_completeness auto
termination
  by (relation "measure (\<lambda>(p, s). length s)") (auto simp: length_dropWhile_le less_Suc_eq_le)

definition extract_words :: "string \<Rightarrow> string list" where
  "extract_words text = findall_words False (lower text)"

subsection \<open>Language detection\<close>

text \<open>The class \<^verbatim>\<open>[...]\<close> of Portuguese-specific characters counted for the bonus.\<close>

definition pt_char :: "char \<Rightarrow> bool" where
  "pt_char c =
     (c \<in> set [CHR 0xE1, CHR 0xE9, CHR 0xED, CHR 0xF3, CHR 0xFA, CHR 0xE0, CHR 0xE2, CHR 0xEA,
                 CHR 0xF4, CHR 0xE3, CHR 0xF5, CHR 0xE7])"

text \<open>The two scores of \<^verbatim>\<open>detect_language\<close> (its lines from the match counts to \<^verbatim>\<open>en_score\<close>).\<close>

definition language_scores :: "string \<Rightarrow> (rat \<times> rat) option" where
  "language_scores text =
     (let words_set = set (extract_words text);
          pt_matches = card (words_set \<inter> PORTUGUESE_MARKERS);
          en_matches = card (words_set \<inter> ENGLISH_MARKERS);
          pt_chars = length (filter pt_char (lower text))
      in do {
        density \<leftarrow> fdiv (of_nat pt_chars) (of_nat (max (length text) 1));
        let pt_char_bonus = min (density * 100) 5;
        pt_ratio \<leftarrow> fdiv (of_nat pt_matches) (of_nat (card PORTUGUESE_MARKERS));
        let pt_score = pt_ratio * 100 + pt_char_bonus;
        en_ratio \<leftarrow> fdiv (of_nat en_matches) (of_nat (card ENGLISH_MARKERS));
        let en_score = en_ratio * 100;
        Some (pt_score, en_score)
      })"

definition detect_language :: "string \<Rightarrow> LanguageDetection option" where
  "detect_language text =
     (let words = extract_words text; total_words = length words
      in if total_words = 0
         then Some \<lparr>detected_language = ''unknown'', confidence = 0,
                     portuguese_score = 0, english_score = 0\<rparr>
         else do {
           (pt_score, en_score) \<leftarrow> language_scores text;
           (detected, conf) \<leftarrow>
             (if pt_score > en_score \<and> pt_score > 5 then do {
                r \<leftarrow> fdiv pt_score (pt_score + en_score + 1 / 10);
                Some (''pt-BR'', min r (99 / 100)) }
              else if en_score > pt_score \<and> en_score > 5 then do {
                r \<leftarrow> fdiv en_score (pt_score + en_score + 1 / 10);
                Some (''en-US'', min r (99 / 100)) }
              else Some (''pt-BR'', 1 / 2));
           Some \<lparr>detected_language = detected, confidence = py_round conf 2,
                  portuguese_score = py_round pt_score 2, english_score = py_round en_score 2\<rparr>
         })"

subsection \<open>Syllable counting\<close>

text \<open>The loop of \<^verbatim>\<open>_count_syllables_portuguese\<close>, on the characters still to read.\<close>

fun pt_syllable_loop :: "string \<Rightarrow> nat \<Rightarrow> bool \<Rightarrow> nat" where
  "pt_syllable_loop [] syllables prev_is_vowel = syllables"
| "pt_syllable_loop (c # cs) syllables prev_is_vowel =
     (let is_vowel = (c \<in> PORTUGUESE_VOWELS)
      in pt_syllable_loop cs
           (if is_vowel \<and> \<not> prev_is_vowel then syllables + 1 else syllables) is_vowel)"

definition count_syllables_portuguese :: "string \<Rightarrow> nat" where
  "count_syllables_portuguese word = max 1 (pt_syllable_loop word 0 False)"

text \<open>
  The loop of \<^verbatim>\<open>_count_syllables_english\<close>. The index test \<^verbatim>\<open>i == len(word) - 1\<close> holds
  when no character is left behind the current one; \<^verbatim>\<open>continue\<close> leaves both variables as
  they are.
\<close>

fun en_syllable_loop :: "string \<Rightarrow> nat \<Rightarrow> bool \<Rightarrow> nat" where
  "en_syllable_loop [] syllables prev_is_vowel = syllables"
| "en_syllable_loop (c # cs) syllables prev_is_vowel =
     (let is_vowel = (c \<in> ENGLISH_VOWELS)
      in if c = CHR ''e'' \<and> cs = [] \<and> syllables > 0
         then en_syllable_loop cs syllables prev_is_vowel
         else en_syllable_loop cs
                (if is_vowel \<and> \<not> prev_is_vowel then syllables + 1 else syllables) is_vowel)"

text \<open>\<^verbatim>\<open>word.endswith('le') and len(word) > 2 and word[-3] not in ENGLISH_VOWELS\<close>.\<close>

definition le_ending :: "string \<Rightarrow> bool" where
  "le_ending word =
     (endswith word ''le'' \<and> length word > 2 \<and> word ! (length word - 3) \<notin> ENGLISH_VOWELS)"

definition count_syllables_english :: "string \<Rightarrow> nat" where
  "count_syllables_english w =
     (let word = lower w;
          syllables = en_syllable_loop word 0 False;
          syllables = (if le_ending word then syllables + 1 else syllables)
      in max 1 syllables)"

text \<open>\<^verbatim>\<open>count_syllables\<close>: \<^verbatim>\<open>re.sub(r'[^\w]', '', word)\<close> keeps the word characters.\<close>

definition count_syllables :: "string \<Rightarrow> string \<Rightarrow> nat" where
  "count_syllables w language =
     (let word = strip (lower w)
      in if word = [] then 0
         else (let word = filter is_word_char word
               in if word = [] then 0
                  else if language = ''en-US'' then count_syllables_english word
                  else count_syllables_portuguese word))"

definition count_syllables_text :: "string \<Rightarrow> string \<Rightarrow> nat" where
  "count_syllables_text text language =
     sum_list (map (\<lambda>word. count_syllables word language) (extract_words text))"

subsection \<open>Segment gaps\<close>

definition MIN_PAUSE_DURATION :: rat where
  "MIN_PAUSE_DURATION = 1 / 4"

definition LONG_PAUSE_THRESHOLD :: rat where
  "LONG_PAUSE_THRESHOLD = 2"

text \<open>
  The values \<^verbatim>\<open>gap\<close> takes in \<^verbatim>\<open>for i in range(1, len(segments))\<close>, in order. The guard
  \<^verbatim>\<open>if segments and len(segments) > 1\<close> skips the loop for \<^verbatim>\<open>None\<close> and for lists shorter
  than two.
\<close>

fun gaps :: "segment list \<Rightarrow> rat list" where
  "gaps (a # b # rest) = (get_start b - get_end a) # gaps (b # rest)"
| "gaps _ = []"

definition segment_gaps :: "segment list option \<Rightarrow> rat list" where
  "segment_gaps segments =
     (case segments of None \<Rightarrow> [] | Some segs \<Rightarrow> if length segs > 1 then gaps segs else [])"

subsection \<open>Speech rate\<close>

text \<open>\<^verbatim>\<open>SPEECH_RATE_THRESHOLDS.get(language, SPEECH_RATE_THRESHOLDS['pt-BR'])\<close> as (slow, fast).\<close>

definition SPEECH_RATE_THRESHOLDS :: "string \<Rightarrow> rat \<times> rat" where
  "SPEECH_RATE_THRESHOLDS language = (if language = ''en-US'' then (200, 280) else (180, 250))"

text \<open>\<^verbatim>\<open>IDEAL_SPEAKING_RATE.get(language, IDEAL_SPEAKING_RATE['pt-BR'])\<close> as (min, max).\<close>

definition IDEAL_SPEAKING_RATE :: "string \<Rightarrow> nat \<times> nat" where
  "IDEAL_SPEAKING_RATE language = (if language = ''en-US'' then (150, 180) else (140, 170))"

definition analyze_speech_rate ::
  "string \<Rightarrow> rat \<Rightarrow> string \<Rightarrow> segment list option \<Rightarrow> SpeechRateMetrics option" where
  "analyze_speech_rate text total_duration0 language segments =
     (let words = extract_words text;
          total_syllables = count_syllables_text text language;
          total_words = length words;
          total_duration = (if total_duration0 \<le> 0 then 1 else total_duration0);
          pause_duration =
            fold (\<lambda>gap acc. if gap \<ge> MIN_PAUSE_DURATION then acc + gap else acc)
              (segment_gaps segments) 0;
          speech_duration = max (1 / 10) (total_duration - pause_duration)
      in do {
        s \<leftarrow> fdiv (of_nat total_syllables) total_duration;
        let speaking_rate = s * 60;
        a \<leftarrow> fdiv (of_nat total_syllables) speech_duration;
        let articulation_rate = a * 60;
        w \<leftarrow> fdiv (of_nat total_words) total_duration;
        let wpm = w * 60;
        let (slow, fast) = SPEECH_RATE_THRESHOLDS language;
        let cls = (if articulation_rate < slow then ''slow''
                   else if articulation_rate > fast then ''fast'' else ''medium'');
        Some \<lparr>speaking_rate_spm = py_round speaking_rate 1,
               articulation_rate_spm = py_round articulation_rate 1,
               words_per_minute = py_round wpm 1,
               total_duration_seconds = py_round total_duration 2,
               speech_duration_seconds = py_round speech_duration 2,
               pause_duration_seconds = py_round pause_duration 2,
               classification = cls\<rparr>
      })"

subsection \<open>Pauses\<close>

definition analyze_pauses :: "rat \<Rightarrow> segment list option \<Rightarrow> PauseMetrics option" where
  "analyze_pauses total_duration segments =
     (let pauses = filter (\<lambda>gap. gap \<ge> MIN_PAUSE_DURATION) (segment_gaps segments);
          n_pauses = length pauses;
          pause_sum = sum_list pauses
      in do {
        (average_pause, longest) \<leftarrow>
          (if n_pauses > 0 then do {
             a \<leftarrow> fdiv pause_sum (of_nat n_pauses);
             m \<leftarrow> py_max pauses;
             Some (a, m) }
           else Some (0, 0));
        (per_minute, ratio) \<leftarrow>
          (if total_duration > 0 then do {
             p \<leftarrow> fdiv (of_nat n_pauses) total_duration;
             r \<leftarrow> fdiv pause_sum total_duration;
             Some (p * 60, r) }
           else Some (0, 0));
        Some \<lparr>total_pauses = n_pauses,
               total_pause_duration = py_round pause_sum 2,
               average_pause_duration = py_round average_pause 2,
               longest_pause = py_round longest 2,
               pauses_per_minute = py_round per_minute 1,
               pause_ratio = py_round ratio 3\<rparr>
      })"

subsection \<open>Vocabulary\<close>

definition empty_vocabulary :: VocabularyMetrics where
  "empty_vocabulary =
     \<lparr>total_words = 0, unique_words = 0, vocabulary_richness = 0, average_word_length = 0,
      complex_words_count = 0, complex_words_ratio = 0, filler_words_count = 0,
      filler_words_ratio = 0, lexical_density = 0\<rparr>"

definition analyze_vocabulary :: "string \<Rightarrow> string \<Rightarrow> VocabularyMetrics option" where
  "analyze_vocabulary text language =
     (let words = extract_words text; n_words = length words
      in if n_words = 0 then Some empty_vocabulary
         else do {
           let n_unique = card (set words);
           richness \<leftarrow> fdiv (of_nat n_unique) (of_nat n_words);
           let total_length = sum_list (map length words);
           avg_length \<leftarrow> fdiv (of_nat total_length) (of_nat n_words);
           let (filler_words, function_words, complex_suffixes) =
             (if language = ''en-US''
              then (ENGLISH_FILLERS, ENGLISH_FUNCTION_WORDS, ENGLISH_COMPLEX_SUFFIXES)
              else (PORTUGUESE_FILLERS, PORTUGUESE_FUNCTION_WORDS, PORTUGUESE_COMPLEX_SUFFIXES));
           let complex_words =
             filter (\<lambda>word. length word \<ge> COMPLEX_WORD_MIN_LENGTH \<or>
                              list_ex (endswith word) complex_suffixes) words;
           let n_complex = length complex_words;
           complex_ratio \<leftarrow> fdiv (of_nat n_complex) (of_nat n_words);
           let filler_count = length (filter (\<lambda>word. word \<in> filler_words) words);
           filler_ratio \<leftarrow> fdiv (of_nat filler_count) (of_nat n_words);
           let content_words = length (filter (\<lambda>word. word \<notin> function_words) words);
           density \<leftarrow> fdiv (of_nat content_words) (of_nat n_words);
           Some \<lparr>total_words = n_words,
                  unique_words = n_unique,
                  vocabulary_richness = py_round richness 3,
                  average_word_length = py_round avg_length 2,
                  complex_words_count = n_complex,
                  complex_words_ratio = py_round complex_ratio 3,
                  filler_words_count = filler_count,
                  filler_words_ratio = py_round filler_ratio 3,
                  lexical_density = py_round density 3\<rparr>
         })"

subsection \<open>Fluency\<close>

text \<open>\<^verbatim>\<open>re.split(r'[.!?]', text)\<close>: the pieces between the delimiters, empty ones included.\<close>

fun re_split_sentences :: "string \<Rightarrow> string \<Rightarrow> string list" where
  "re_split_sentences cur [] = [rev cur]"
| "re_split_sentences cur (c # cs) =
     (if c = CHR ''.'' \<or> c = CHR ''!'' \<or> c = CHR ''?''
      then rev cur # re_split_sentences [] cs
      else re_split_sentences (c # cur) cs)"

text \<open>The adjacent pairs \<^verbatim>\<open>(words[i-1], words[i])\<close> for \<^verbatim>\<open>i in range(1, len(words))\<close>.\<close>

fun adjacent_pairs :: "'a list \<Rightarrow> ('a \<times> 'a) list" where
  "adjacent_pairs (a # b # rest) = (a, b) # adjacent_pairs (b # rest)"
| "adjacent_pairs _ = []"

text \<open>
  \<^verbatim>\<open>difflib.SequenceMatcher(None, a, b).ratio()\<close> belongs to the Python standard library, not
  to this repository: \<open>analyze_fluency\<close> takes it as the parameter \<open>ratio\<close>.
\<close>

definition analyze_fluency ::
  "(string \<Rightarrow> string \<Rightarrow> rat) \<Rightarrow> string \<Rightarrow> rat \<Rightarrow> segment list option
     \<Rightarrow> FluencyMetrics option" where
  "analyze_fluency ratio text total_duration segments =
     (let words = extract_words text;
          repetitions = length (filter (\<lambda>(prev, cur). cur = prev) (adjacent_pairs words));
          self_corrections =
            length (filter (\<lambda>(prev, cur). cur \<noteq> prev \<and>
                              1 / 2 < ratio prev cur \<and> ratio prev cur < 9 / 10)
                      (adjacent_pairs words));
          sentences = re_split_sentences [] text;
          incomplete =
            length (filter (\<lambda>s. length (split (strip s)) < 3 \<and> length (strip s) > 0) sentences);
          hesitations =
            length (filter (\<lambda>gap. gap \<ge> LONG_PAUSE_THRESHOLD) (segment_gaps segments))
      in do {
        hes_rate \<leftarrow>
          (if total_duration > 0 then do {
             h \<leftarrow> fdiv (of_nat hesitations) total_duration;
             Some (h * 60) }
           else Some 0);
        penalty \<leftarrow>
          (if length words > 0 then do {
             r \<leftarrow> fdiv (of_nat repetitions) (of_nat (length words));
             c \<leftarrow> fdiv (of_nat self_corrections) (of_nat (length words));
             Some (0 + r * 20 + c * 15 + hes_rate * 5 + of_nat incomplete * 3) }
           else Some 0);
        let score = max 0 (min 100 (100 - penalty));
        Some \<lparr>fluency_score = py_round score 1,
               hesitation_rate = py_round hes_rate 2,
               repetition_count = repetitions,
               self_corrections_count = self_corrections,
               incomplete_sentences = incomplete\<rparr>
      })"

subsection \<open>Scores\<close>

definition score_speech_rate :: "SpeechRateMetrics \<Rightarrow> string \<Rightarrow> rat" where
  "score_speech_rate sr language =
     (let wpm = words_per_minute sr;
          (ideal_min, ideal_max) = IDEAL_SPEAKING_RATE language
      in if of_nat ideal_min \<le> wpm \<and> wpm \<le> of_nat ideal_max then 100
         else (let distance = (if wpm < of_nat ideal_min then of_nat ideal_min - wpm
                               else wpm - of_nat ideal_max)
               in max 0 (100 - distance * 2)))"

definition score_pauses :: "PauseMetrics \<Rightarrow> rat" where
  "score_pauses p =
     (let base_score =
            (if 1 / 10 \<le> pause_ratio p \<and> pause_ratio p \<le> 1 / 4 then 100
             else if pause_ratio p < 1 / 10 then 80
             else max 0 (100 - (pause_ratio p - 1 / 4) * 200));
          base_score = (if longest_pause p > 3 then base_score - 10 else base_score)
      in max 0 base_score)"

definition score_vocabulary :: "VocabularyMetrics \<Rightarrow> rat" where
  "score_vocabulary v =
     (let score = 50;
          score = score + vocabulary_richness v * 30;
          score = score + min (complex_words_ratio v * 50) 15;
          score = score - filler_words_ratio v * 50
      in max 0 (min 100 score))"

subsection \<open>Feedback\<close>

text \<open>
  Every feedback entry of the source is a fixed template, in English or in Portuguese, with
  at most three values formatted into it. An entry is modelled by the language of its
  template, the template and the values; the rendering of a number as text is left out.
\<close>

datatype ui_language = English | Portuguese

datatype feedback_line =
    LanguageDetected rat
  | PaceFast | PaceSlow | PaceAppropriate
  | RateBelowIdeal rat nat nat | RateAboveIdeal rat nat nat | RateWithinIdeal rat
  | ManyPauses | FewPauses | LongPauseDetected rat
  | RepetitiveVocabulary | ExcellentVocabulary | HighFillerUse nat | ComplexVocabulary
  | ExcellentFluency | GoodFluency | RoomToImproveFluency
  | RepetitionsDetected nat | SelfCorrectionsDetected nat

datatype recommendation =
    SlowDown | SpeedUp | ReducePauses | StrategicPauses | UseSynonyms | ReduceFillers
  | AvoidRepeating | PracticeMore

text \<open>
  The two branches of \<^verbatim>\<open>generate_feedback\<close> run the same tests with the same constants and
  differ in the wording only. Each block of tests of a branch is one definition below,
  giving the lines it appends to \<^verbatim>\<open>feedback\<close> and, where it has any, to
  \<^verbatim>\<open>recommendations\<close>; \<open>feedback_in\<close> joins them in the order of the source.
\<close>

definition pace_feedback :: "SpeechRateMetrics \<Rightarrow> feedback_line list \<times> recommendation list" where
  "pace_feedback speech_rate =
     (if classification speech_rate = ''fast'' then ([PaceFast], [SlowDown])
      else if classification speech_rate = ''slow'' then ([PaceSlow], [SpeedUp])
      else ([PaceAppropriate], []))"

definition rate_feedback :: "nat \<times> nat \<Rightarrow> SpeechRateMetrics \<Rightarrow> feedback_line list" where
  "rate_feedback ideal_rate speech_rate =
     (let (ideal_min, ideal_max) = ideal_rate; wpm = words_per_minute speech_rate
      in if wpm < of_nat ideal_min then [RateBelowIdeal wpm ideal_min ideal_max]
         else if wpm > of_nat ideal_max then [RateAboveIdeal wpm ideal_min ideal_max]
         else [RateWithinIdeal wpm])"

definition pause_feedback ::
  "PauseMetrics \<Rightarrow> SpeechRateMetrics \<Rightarrow> feedback_line list \<times> recommendation list" where
  "pause_feedback pauses speech_rate =
     (if pause_ratio pauses > 3 / 10 then ([ManyPauses], [ReducePauses])
      else if pause_ratio pauses < 1 / 10 \<and> total_duration_seconds speech_rate > 10
      then ([FewPauses], [StrategicPauses])
      else ([], []))"

definition long_pause_feedback :: "PauseMetrics \<Rightarrow> feedback_line list" where
  "long_pause_feedback pauses =
     (if longest_pause pauses > 3 then [LongPauseDetected (longest_pause pauses)] else [])"

definition richness_feedback ::
  "VocabularyMetrics \<Rightarrow> feedback_line list \<times> recommendation list" where
  "richness_feedback vocabulary =
     (if vocabulary_richness vocabulary < 4 / 10 then ([RepetitiveVocabulary], [UseSynonyms])
      else if vocabulary_richness vocabulary > 7 / 10 then ([ExcellentVocabulary], [])
      else ([], []))"

definition filler_feedback ::
  "VocabularyMetrics \<Rightarrow> feedback_line list \<times> recommendation list" where
  "filler_feedback vocabulary =
     (if filler_words_ratio vocabulary > 1 / 10
      then ([HighFillerUse (filler_words_count vocabulary)], [ReduceFillers])
      else ([], []))"

definition complex_feedback :: "VocabularyMetrics \<Rightarrow> feedback_line list" where
  "complex_feedback vocabulary =
     (if complex_words_ratio vocabulary > 15 / 100 then [ComplexVocabulary] else [])"

definition fluency_level_feedback :: "FluencyMetrics \<Rightarrow> feedback_line list" where
  "fluency_level_feedback fluency =
     (if fluency_score fluency \<ge> 80 then [ExcellentFluency]
      else if fluency_score fluency \<ge> 60 then [GoodFluency]
      else [RoomToImproveFluency])"

definition repetition_feedback ::
  "FluencyMetrics \<Rightarrow> feedback_line list \<times> recommendation list" where
  "repetition_feedback fluency =
     (if repetition_count fluency > 3
      then ([RepetitionsDetected (repetition_count fluency)], [AvoidRepeating])
      else ([], []))"

definition correction_feedback ::
  "FluencyMetrics \<Rightarrow> feedback_line list \<times> recommendation list" where
  "correction_feedback fluency =
     (if self_corrections_count fluency > 2
      then ([SelfCorrectionsDetected (self_corrections_count fluency)], [PracticeMore])
      else ([], []))"

definition feedback_in ::
  "ui_language \<Rightarrow> nat \<times> nat \<Rightarrow> LanguageDetection \<Rightarrow> SpeechRateMetrics \<Rightarrow> PauseMetrics
     \<Rightarrow> VocabularyMetrics \<Rightarrow> FluencyMetrics
     \<Rightarrow> (ui_language \<times> feedback_line) list \<times> (ui_language \<times> recommendation) list" where
  "feedback_in ui ideal_rate language_detection speech_rate pauses vocabulary fluency =
     (map (Pair ui)
        ([LanguageDetected (confidence language_detection)]
         @ fst (pace_feedback speech_rate)
         @ rate_feedback ideal_rate speech_rate
         @ fst (pause_feedback pauses speech_rate)
         @ long_pause_feedback pauses
         @ fst (richness_feedback vocabulary)
         @ fst (filler_feedback vocabulary)
         @ complex_feedback vocabulary
         @ fluency_level_feedback fluency
         @ fst (repetition_feedback fluency)
         @ fst (correction_feedback fluency)),
      map (Pair ui)
        (snd (pace_feedback speech_rate)
         @ snd (pause_feedback pauses speech_rate)
         @ snd (richness_feedback vocabulary)
         @ snd (filler_feedback vocabulary)
         @ snd (repetition_feedback fluency)
         @ snd (correction_feedback fluency)))"

definition generate_feedback ::
  "LanguageDetection \<Rightarrow> SpeechRateMetrics \<Rightarrow> PauseMetrics \<Rightarrow> VocabularyMetrics
     \<Rightarrow> FluencyMetrics
     \<Rightarrow> (ui_language \<times> feedback_line) list \<times> (ui_language \<times> recommendation) list" where
  "generate_feedback language_detection speech_rate pauses vocabulary fluency =
     (let lang = detected_language language_detection;
          ideal_rate = IDEAL_SPEAKING_RATE lang
      in if lang = ''en-US''
         then feedback_in English ideal_rate language_detection speech_rate pauses vocabulary
                fluency
         else feedback_in Portuguese ideal_rate language_detection speech_rate pauses vocabulary
                fluency)"

subsection \<open>The whole analysis\<close>

record ComprehensiveSpeechAnalysis =
  language :: LanguageDetection
  speech_rate :: SpeechRateMetrics
  pauses :: PauseMetrics
  vocabulary :: VocabularyMetrics
  fluency :: FluencyMetrics
  overall_score :: rat
  feedback :: "(ui_language \<times> feedback_line) list"
  recommendations :: "(ui_language \<times> recommendation) list"

text \<open>\<^verbatim>\<open>if language_hint:\<close> is false for \<^verbatim>\<open>None\<close> and for the empty string.\<close>

definition hinted_language :: "string \<Rightarrow> string option \<Rightarrow> LanguageDetection option" where
  "hinted_language text language_hint =
     (case language_hint of
        None \<Rightarrow> detect_language text
      | Some hint \<Rightarrow>
          if hint = [] then detect_language text
          else if lower hint \<in> set [''pt'', ''pt-br'', ''portuguese'']
          then Some \<lparr>detected_language = ''pt-BR'', confidence = 1,
                      portuguese_score = 100, english_score = 0\<rparr>
          else if lower hint \<in> set [''en'', ''en-us'', ''english'']
          then Some \<lparr>detected_language = ''en-US'', confidence = 1,
                      portuguese_score = 0, english_score = 100\<rparr>
          else detect_language text)"

definition analyze_comprehensive ::
  "(string \<Rightarrow> string \<Rightarrow> rat) \<Rightarrow> string \<Rightarrow> rat \<Rightarrow> segment list option \<Rightarrow> string option
     \<Rightarrow> ComprehensiveSpeechAnalysis option" where
  "analyze_comprehensive ratio text total_duration segments language_hint =
     do {
       detected_lang \<leftarrow> hinted_language text language_hint;
       let lang = detected_language detected_lang;
       sr \<leftarrow> analyze_speech_rate text total_duration lang segments;
       p \<leftarrow> analyze_pauses total_duration segments;
       v \<leftarrow> analyze_vocabulary text lang;
       f \<leftarrow> analyze_fluency ratio text total_duration segments;
       let (fb, recs) = generate_feedback detected_lang sr p v f;
       let overall =
         score_speech_rate sr lang * (25 / 100) + score_pauses p * (15 / 100)
         + score_vocabulary v * (25 / 100) + fluency_score f * (35 / 100);
       Some \<lparr>language = detected_lang, speech_rate = sr, pauses = p, vocabulary = v,
              fluency = f, overall_score = py_round overall 1,
              feedback = fb, recommendations = recs\<rparr>
     }"

subsection \<open>Helpers of \<^verbatim>\<open>utils/metrics.py\<close> and \<^verbatim>\<open>utils/text.py\<close>\<close>

definition calculate_ttr :: "string list \<Rightarrow> rat option" where
  "calculate_ttr words =
     (if words = [] then Some 0
      else fdiv (of_nat (card (set words))) (of_nat (length words)))"

definition calculate_fluency_score :: "rat \<Rightarrow> rat \<Rightarrow> int \<Rightarrow> int \<Rightarrow> rat" where
  "calculate_fluency_score filler_ratio repetition_ratio false_start_count n_words =
     (let score = 100;
          filler_penalty = filler_ratio * 2000;
          repetition_penalty = repetition_ratio * 1500;
          false_start_penalty = of_int (false_start_count * 5);
          score = (if n_words > 100 \<and> filler_ratio + repetition_ratio < 5 / 100
                   then score + 10 else score)
      in max 0 (score - filler_penalty - repetition_penalty - false_start_penalty))"

text \<open>
  \<^verbatim>\<open>_count_syllables_english\<close> of \<^verbatim>\<open>utils/text.py\<close>, a second English counter that the
  service does not call. Its table \<^verbatim>\<open>exceptions\<close> maps each listed word to 1.
\<close>

definition text_exceptions :: "(string \<times> nat) list" where
  "text_exceptions =
     [(''the'', 1), (''be'', 1), (''are'', 1), (''were'', 1), (''have'', 1), (''give'', 1),
      (''live'', 1), (''love'', 1), (''move'', 1), (''come'', 1)]"

fun text_vowel_loop :: "string \<Rightarrow> nat \<Rightarrow> bool \<Rightarrow> nat" where
  "text_vowel_loop [] count prev_was_vowel = count"
| "text_vowel_loop (c # cs) count prev_was_vowel =
     (let is_vowel = (c \<in> set ''aeiouy'')
      in text_vowel_loop cs
           (if is_vowel \<and> \<not> prev_was_vowel then count + 1 else count) is_vowel)"

definition text_count_syllables_english :: "string \<Rightarrow> nat" where
  "text_count_syllables_english w =
     (let word = strip (lower w)
      in if word = [] then 0
         else case map_of text_exceptions word of
           Some n \<Rightarrow> n
         | None \<Rightarrow>
             (let count = text_vowel_loop word 0 False;
                  count = (if endswith word ''e'' \<and> count > 1 then count - 1 else count);
                  count = (if length word > 2 \<and> endswith word ''le'' \<and>
                              word ! (length word - 3) \<notin> set ''aeiouy''
                           then count + 1 else count);
                  count = (if endswith word ''ed'' \<and> count > 1
                           then (if \<not> endswith word ''ted'' \<and> \<not> endswith word ''ded''
                                 then count - 1 else count)
                           else count)
              in max 1 count))"

subsection \<open>Notions used to state the properties\<close>

text \<open>The gaps that \<open>analyze_pauses\<close> and \<open>analyze_speech_rate\<close> count as pauses.\<close>

definition counted_gaps :: "segment list option \<Rightarrow> rat list" where
  "counted_gaps segments = filter (\<lambda>gap. gap \<ge> MIN_PAUSE_DURATION) (segment_gaps segments)"

text \<open>
  The hesitation rate of \<open>analyze_fluency\<close> before it is rounded for the result: the value
  that enters the penalty.
\<close>

definition hesitation_rate_exact :: "rat \<Rightarrow> segment list option \<Rightarrow> rat" where
  "hesitation_rate_exact total_duration segments =
     (if total_duration > 0
      then of_nat (length (filter (\<lambda>gap. gap \<ge> LONG_PAUSE_THRESHOLD) (segment_gaps segments)))
             / total_duration * 60
      else 0)"

text \<open>The language of the templates of \<open>generate_feedback\<close>, and the kinds of line.\<close>

definition feedback_language :: "LanguageDetection \<Rightarrow> ui_language" where
  "feedback_language ld = (if detected_language ld = ''en-US'' then English else Portuguese)"

definition is_pace_line :: "feedback_line \<Rightarrow> bool" where
  "is_pace_line l = (l = PaceFast \<or> l = PaceSlow \<or> l = PaceAppropriate)"

fun is_rate_line :: "feedback_line \<Rightarrow> bool" where
  "is_rate_line (RateBelowIdeal _ _ _) = True"
| "is_rate_line (RateAboveIdeal _ _ _) = True"
| "is_rate_line (RateWithinIdeal _) = True"
| "is_rate_line _ = False"

definition is_fluency_level_line :: "feedback_line \<Rightarrow> bool" where
  "is_fluency_level_line l = (l = ExcellentFluency \<or> l = GoodFluency \<or> l = RoomToImproveFluency)"




text \<open>
  The English syllable counter as the specification words it: vowel runs over
  \<open>{a, e, i, o, u, y}\<close>, counted where they start; a trailing \<open>e\<close> that starts no new run
  once the count is at least 1; the listed exception words fixed to 1; one more for an
  \<open>-le\<close> ending after a consonant; one less for an \<open>-ed\<close> ending not preceded by \<open>t\<close> or
  \<open>d\<close>; at least 1.
\<close>

fun vowel_run_starts :: "bool \<Rightarrow> string \<Rightarrow> nat" where
  "vowel_run_starts prev [] = 0"
| "vowel_run_starts prev (c # cs) =
     (if c \<in> ENGLISH_VOWELS \<and> \<not> prev then 1 else 0)
     + vowel_run_starts (c \<in> ENGLISH_VOWELS) cs"

definition silent_e_runs :: "string \<Rightarrow> nat" where
  "silent_e_runs word =
     (if word \<noteq> [] \<and> last word = CHR ''e'' \<and> vowel_run_starts False (butlast word) \<ge> 1
      then vowel_run_starts False (butlast word)
      else vowel_run_starts False word)"

definition ed_ending :: "string \<Rightarrow> bool" where
  "ed_ending word =
     (endswith word ''ed'' \<and> \<not> endswith word ''ted'' \<and> \<not> endswith word ''ded'')"

definition exception_words :: "string list" where
  "exception_words =
     [''the'', ''be'', ''are'', ''were'', ''have'', ''give'', ''live'', ''love'', ''move'',
      ''come'']"

definition claimed_syllables_english :: "string \<Rightarrow> int" where
  "claimed_syllables_english w =
     (let word = lower w
      in if word \<in> set exception_words then 1
         else max 1 (int (silent_e_runs word)
                     + (if le_ending word then 1 else 0)
                     - (if ed_ending word then 1 else 0)))"

section \<open>Properties\<close>

subsection \<open>Auxiliary facts: rounding, division, maxima\<close>

lemma round_half_even_range:
  "\<lfloor>s\<rfloor> \<le> round_half_even s \<and> round_half_even s \<le> \<lfloor>s\<rfloor> + 1"
  by (simp add: round_half_even_def Let_def)

lemma round_half_even_mono:
  assumes "s \<le> t"
  shows "round_half_even s \<le> round_half_even t"
proof (cases "\<lfloor>s\<rfloor> = \<lfloor>t\<rfloor>")
  case True
  then have "s - of_int \<lfloor>s\<rfloor> \<le> t - of_int \<lfloor>t\<rfloor>"
    using assms by simp
  then show ?thesis
    using True by (simp add: round_half_even_def Let_def)
next
  case False
  then have "\<lfloor>s\<rfloor> < \<lfloor>t\<rfloor>"
    using assms floor_mono [of s t] by linarith
  then show ?thesis
    using round_half_even_range [of s] round_half_even_range [of t] by linarith
qed

lemma round_half_even_of_int: "round_half_even (of_int k) = k"
  by (simp add: round_half_even_def)

lemma py_round_mono: "x \<le> y \<Longrightarrow> py_round x n \<le> py_round y n"
  by (simp add: py_round_def round_half_even_mono divide_right_mono)

lemma py_round_of_int: "py_round (of_int k) n = of_int k"
proof -
  have "round_half_even (of_int k * 10 ^ n) = k * 10 ^ n"
    using round_half_even_of_int [of "k * 10 ^ n"] by simp
  then show ?thesis
    by (simp add: py_round_def)
qed

lemma py_round_0: "py_round 0 n = 0"
  using py_round_of_int [of 0 n] by simp

lemma py_round_100: "py_round 100 n = 100"
  using py_round_of_int [of 100 n] by simp

lemma py_round_nonneg: "0 \<le> x \<Longrightarrow> 0 \<le> py_round x n"
  using py_round_mono [of 0 x n] by (simp add: py_round_0)

lemma py_round_le_100: "x \<le> 100 \<Longrightarrow> py_round x n \<le> 100"
  using py_round_mono [of x 100 n] by (simp add: py_round_100)

lemma py_round_le_1: "x \<le> 1 \<Longrightarrow> py_round x n \<le> 1"
  using py_round_mono [of x 1 n] py_round_of_int [of 1 n] by simp


lemma fdiv_Some: "b \<noteq> 0 \<Longrightarrow> fdiv a b = Some (a / b)"
  by (simp add: fdiv_def)




lemma py_max_Some: "xs \<noteq> [] \<Longrightarrow> \<exists>m. py_max xs = Some m"
  by (cases xs) (simp_all add: py_max_def)



lemma fold_pause_sum:
  fixes m a :: rat
  shows "fold (\<lambda>gap acc. if gap \<ge> m then acc + gap else acc) gs a
     = a + sum_list (filter (\<lambda>gap. gap \<ge> m) gs)"
  by (induction gs arbitrary: a) auto

lemma counted_gaps_nonneg:
  "0 \<le> sum_list (filter (\<lambda>gap. gap \<ge> MIN_PAUSE_DURATION) gs)"
  by (rule sum_list_nonneg) (auto simp: MIN_PAUSE_DURATION_def)


lemma max_tenth_nonzero: "max (1 / 10) x \<noteq> (0::rat)"
  by (simp add: max_def)

text \<open>
  Rounding moves a value by at most half a unit of the last place kept, and leaves a value
  with no further decimals as it is.
\<close>

lemma round_half_even_error: "\<bar>of_int (round_half_even s) - s\<bar> \<le> 1 / 2"
proof -
  define f where "f = \<lfloor>s\<rfloor>"
  define e where "e = s - of_int f"
  have e: "0 \<le> e" "e < 1"
    unfolding e_def f_def by linarith+
  have s: "s = of_int f + e"
    by (simp add: e_def)
  have r: "round_half_even s =
      (if e < 1 / 2 then f else if 1 / 2 < e then f + 1 else if even f then f else f + 1)"
    by (simp add: round_half_even_def Let_def f_def e_def)
  consider "round_half_even s = f \<and> e \<le> 1 / 2" | "round_half_even s = f + 1 \<and> 1 / 2 \<le> e"
    unfolding r by (cases "e < 1 / 2"; cases "1 / 2 < e"; cases "even f") auto
  then show ?thesis
  proof cases
    case 1
    then have "of_int (round_half_even s) - s = - e"
      by (simp add: e_def)
    then show ?thesis
      using 1 e by simp
  next
    case 2
    then have "of_int (round_half_even s) - s = 1 - e"
      by (simp add: e_def)
    then show ?thesis
      using 2 e by simp
  qed
qed

lemma py_round_error: "\<bar>py_round x n - x\<bar> \<le> 1 / (2 * 10 ^ n)"
proof -
  have p: "(0::rat) < 10 ^ n"
    by simp
  have "py_round x n - x = (of_int (round_half_even (x * 10 ^ n)) - x * 10 ^ n) / 10 ^ n"
    by (simp add: py_round_def diff_divide_distrib)
  then have "\<bar>py_round x n - x\<bar> = \<bar>of_int (round_half_even (x * 10 ^ n)) - x * 10 ^ n\<bar> / 10 ^ n"
    by (simp add: abs_divide)
  also have "\<dots> \<le> (1 / 2) / 10 ^ n"
    by (rule divide_right_mono [OF round_half_even_error]) simp
  finally show ?thesis
    by simp
qed



lemma clamp_lipschitz:
  fixes a b :: rat
  shows "\<bar>max 0 (min 100 a) - max 0 (min 100 b)\<bar> \<le> \<bar>a - b\<bar>"
  by (auto simp: max_def min_def abs_if)

lemma abs_close_tenth:
  fixes a b c :: rat
  assumes "\<bar>a - b\<bar> \<le> 1 / 20" and "\<bar>b - c\<bar> \<le> 1 / 40"
  shows "\<bar>a - c\<bar> < 1 / 10"
  using assms by linarith








subsection \<open>What the analyzers compute\<close>

lemma card_PORTUGUESE_MARKERS: "card PORTUGUESE_MARKERS = 51"
  by code_simp

lemma card_ENGLISH_MARKERS: "card ENGLISH_MARKERS = 44"
  by code_simp

lemma language_scores_Some:
  "language_scores text =
     Some (of_nat (card (set (extract_words text) \<inter> PORTUGUESE_MARKERS)) / 51 * 100
             + min (of_nat (length (filter pt_char (lower text)))
                      / of_nat (max (length text) 1) * 100) 5,
           of_nat (card (set (extract_words text) \<inter> ENGLISH_MARKERS)) / 44 * 100)"
  by (simp add: language_scores_def Let_def fdiv_def card_PORTUGUESE_MARKERS
      card_ENGLISH_MARKERS)

lemma language_scores_nonneg:
  "language_scores text = Some (pt, en) \<Longrightarrow> 0 \<le> pt \<and> 0 \<le> en"
  unfolding language_scores_Some by auto

lemma analyze_speech_rate_Some:
  "analyze_speech_rate text d lang segs =
     (let T = (if d \<le> 0 then 1 else d);
          P = sum_list (filter (\<lambda>gap. gap \<ge> MIN_PAUSE_DURATION) (segment_gaps segs));
          S = max (1 / 10) (T - P);
          n = of_nat (count_syllables_text text lang);
          cls = (if n / S * 60 < fst (SPEECH_RATE_THRESHOLDS lang) then ''slow''
                 else if n / S * 60 > snd (SPEECH_RATE_THRESHOLDS lang) then ''fast''
                 else ''medium'')
      in Some \<lparr>speaking_rate_spm = py_round (n / T * 60) 1,
               articulation_rate_spm = py_round (n / S * 60) 1,
               words_per_minute = py_round (of_nat (length (extract_words text)) / T * 60) 1,
               total_duration_seconds = py_round T 2,
               speech_duration_seconds = py_round S 2,
               pause_duration_seconds = py_round P 2,
               classification = cls\<rparr>)"
  unfolding analyze_speech_rate_def Let_def fold_pause_sum
  by (simp add: fdiv_Some max_tenth_nonzero split: prod.split)

lemma analyze_pauses_Some:
  "\<exists>avg longest.
     (if counted_gaps segs = [] then avg = 0 \<and> longest = 0
      else avg = sum_list (counted_gaps segs) / of_nat (length (counted_gaps segs)) \<and>
           py_max (counted_gaps segs) = Some longest) \<and>
     analyze_pauses d segs = Some
       \<lparr>total_pauses = length (counted_gaps segs),
        total_pause_duration = py_round (sum_list (counted_gaps segs)) 2,
        average_pause_duration = py_round avg 2,
        longest_pause = py_round longest 2,
        pauses_per_minute =
          py_round (if d > 0 then of_nat (length (counted_gaps segs)) / d * 60 else 0) 1,
        pause_ratio = py_round (if d > 0 then sum_list (counted_gaps segs) / d else 0) 3\<rparr>"
proof (cases "counted_gaps segs = []")
  case True
  then show ?thesis
    by (simp add: analyze_pauses_def counted_gaps_def [symmetric] fdiv_def Let_def)
next
  case False
  then obtain m where m: "py_max (counted_gaps segs) = Some m"
    using py_max_Some by blast
  show ?thesis
    using False m by (simp add: analyze_pauses_def counted_gaps_def [symmetric] fdiv_def Let_def)
qed

subsection \<open>Every analyzer returns\<close>

lemma detect_language_total: "\<exists>l. detect_language text = Some l"
proof -
  obtain pt en where s: "language_scores text = Some (pt, en)"
    using language_scores_Some by blast
  then have "0 \<le> pt" "0 \<le> en"
    using language_scores_nonneg by blast+
  then have "pt + en + 1 / 10 \<noteq> 0"
    by linarith
  then show ?thesis
    using s by (simp add: detect_language_def Let_def fdiv_def)
qed

lemma hinted_language_total: "\<exists>l. hinted_language text hint = Some l"
  using detect_language_total [of "text"]
  by (auto simp: hinted_language_def split: option.split)

lemma analyze_vocabulary_total: "\<exists>v. analyze_vocabulary text lang = Some v"
  by (cases "extract_words text = []")
    (simp_all add: analyze_vocabulary_def Let_def fdiv_def split: prod.split)

lemma analyze_fluency_fields:
  "\<exists>f. analyze_fluency ratio text d segs = Some f \<and>
     0 \<le> fluency_score f \<and> fluency_score f \<le> 100 \<and>
     hesitation_rate f = py_round (hesitation_rate_exact d segs) 2"
  by (cases "extract_words text = []")
    (simp_all add: analyze_fluency_def hesitation_rate_exact_def Let_def fdiv_def
      py_round_nonneg py_round_le_100)

lemma analyze_pauses_rates:
  "\<exists>p. analyze_pauses d segs = Some p \<and>
     pauses_per_minute p =
       py_round (if d > 0 then of_nat (length (counted_gaps segs)) / d * 60 else 0) 1 \<and>
     pause_ratio p = py_round (if d > 0 then sum_list (counted_gaps segs) / d else 0) 3"
  using analyze_pauses_Some [of segs d] by auto

lemma analyze_comprehensive_Some:
  "\<exists>l sr p v f.
     hinted_language text hint = Some l \<and>
     analyze_speech_rate text d (detected_language l) segs = Some sr \<and>
     analyze_pauses d segs = Some p \<and>
     analyze_vocabulary text (detected_language l) = Some v \<and>
     analyze_fluency ratio text d segs = Some f \<and>
     analyze_comprehensive ratio text d segs hint = Some
       \<lparr>language = l, speech_rate = sr, pauses = p, vocabulary = v, fluency = f,
        overall_score =
          py_round (score_speech_rate sr (detected_language l) * (25 / 100)
                    + score_pauses p * (15 / 100) + score_vocabulary v * (25 / 100)
                    + fluency_score f * (35 / 100)) 1,
        feedback = fst (generate_feedback l sr p v f),
        recommendations = snd (generate_feedback l sr p v f)\<rparr>"
proof -
  obtain l where l: "hinted_language text hint = Some l"
    using hinted_language_total by blast
  obtain sr where sr: "analyze_speech_rate text d (detected_language l) segs = Some sr"
    unfolding analyze_speech_rate_Some by (simp add: Let_def)
  obtain p where p: "analyze_pauses d segs = Some p"
    using analyze_pauses_rates by blast
  obtain v where v: "analyze_vocabulary text (detected_language l) = Some v"
    using analyze_vocabulary_total by blast
  obtain f where f: "analyze_fluency ratio text d segs = Some f"
    using analyze_fluency_fields by blast
  show ?thesis
    by (simp add: analyze_comprehensive_def Let_def l sr p v f split: prod.split)
qed

subsection \<open>Score bounds\<close>

text \<open>The scores of the engine itself are all within bounds.\<close>

lemma score_speech_rate_range:
  "0 \<le> score_speech_rate sr lang \<and> score_speech_rate sr lang \<le> 100"
  by (auto simp: score_speech_rate_def Let_def split: prod.split)

lemma score_pauses_range: "0 \<le> score_pauses p \<and> score_pauses p \<le> 100"
  by (auto simp: score_pauses_def Let_def)

lemma score_vocabulary_range: "0 \<le> score_vocabulary v \<and> score_vocabulary v \<le> 100"
  by (simp add: score_vocabulary_def Let_def)

lemma weighted_sum_range:
  fixes a b c e :: rat
  assumes "0 \<le> a \<and> a \<le> 100" "0 \<le> b \<and> b \<le> 100" "0 \<le> c \<and> c \<le> 100" "0 \<le> e \<and> e \<le> 100"
  shows "0 \<le> a * (25 / 100) + b * (15 / 100) + c * (25 / 100) + e * (35 / 100)"
    and "a * (25 / 100) + b * (15 / 100) + c * (25 / 100) + e * (35 / 100) \<le> 100"
  using assms by auto

lemma engine_scores_in_range:
  "\<exists>r. analyze_comprehensive ratio text d segs hint = Some r \<and>
     0 \<le> score_speech_rate (speech_rate r) (detected_language (language r)) \<and>
     score_speech_rate (speech_rate r) (detected_language (language r)) \<le> 100 \<and>
     0 \<le> score_pauses (pauses r) \<and> score_pauses (pauses r) \<le> 100 \<and>
     0 \<le> score_vocabulary (vocabulary r) \<and> score_vocabulary (vocabulary r) \<le> 100 \<and>
     0 \<le> fluency_score (fluency r) \<and> fluency_score (fluency r) \<le> 100 \<and>
     0 \<le> overall_score r \<and> overall_score r \<le> 100"
proof -
  obtain l sr p v f where
    f: "analyze_fluency ratio text d segs = Some f"
    and r: "analyze_comprehensive ratio text d segs hint = Some
       \<lparr>language = l, speech_rate = sr, pauses = p, vocabulary = v, fluency = f,
        overall_score =
          py_round (score_speech_rate sr (detected_language l) * (25 / 100)
                    + score_pauses p * (15 / 100) + score_vocabulary v * (25 / 100)
                    + fluency_score f * (35 / 100)) 1,
        feedback = fst (generate_feedback l sr p v f),
        recommendations = snd (generate_feedback l sr p v f)\<rparr>"
    using analyze_comprehensive_Some [of "text" hint d segs ratio] by blast
  have fl: "0 \<le> fluency_score f \<and> fluency_score f \<le> 100"
    using analyze_fluency_fields [of ratio "text" d segs] f by auto
  note w = weighted_sum_range [OF score_speech_rate_range [of sr "detected_language l"]
      score_pauses_range [of p] score_vocabulary_range [of v] fl]
  show ?thesis
    unfolding r
    using score_speech_rate_range [of sr "detected_language l"] score_pauses_range [of p]
      score_vocabulary_range [of v] fl py_round_nonneg [OF w(1), of 1]
      py_round_le_100 [OF w(2), of 1]
    by simp
qed

text \<open>
  C1. Every sub-score and the overall score lie in \<open>[0, 100]\<close>, also for the standalone
  helpers such as \<^verbatim>\<open>calculate_fluency_score\<close>, whose documentation promises a score
  between 0 and 100. The helper adds its bonus of 10 to the starting score of 100 and
  only bounds the result from below: with more than 100 words and no filler, repetition or
  false start it returns 110.
\<close>

theorem calculate_fluency_score_exceeds_100:
  "calculate_fluency_score 0 0 0 101 = 110 \<and> \<not> calculate_fluency_score 0 0 0 101 \<le> 100"
  by (simp add: calculate_fluency_score_def)

subsection \<open>Language detection\<close>





subsection \<open>Fluency\<close>

lemma analyze_fluency_closed:
  "\<exists>f. analyze_fluency ratio text d segs = Some f \<and>
     hesitation_rate f = py_round (hesitation_rate_exact d segs) 2 \<and>
     fluency_score f =
       (if extract_words text = [] then 100
        else py_round (max 0 (min 100 (100
               - of_nat (repetition_count f) / of_nat (length (extract_words text)) * 20
               - of_nat (self_corrections_count f) / of_nat (length (extract_words text)) * 15
               - hesitation_rate_exact d segs * 5
               - of_nat (incomplete_sentences f) * 3))) 1)"
proof (cases "extract_words text = []")
  case True
  then show ?thesis
    by (simp add: analyze_fluency_def hesitation_rate_exact_def Let_def fdiv_def py_round_100)
next
  case False
  then show ?thesis
    by (simp add: analyze_fluency_def hesitation_rate_exact_def Let_def fdiv_def diff_diff_eq)
qed

text \<open>
  C3 (as amended). \<open>analyze_fluency\<close> never raises and its score lies in \<open>[0, 100]\<close>. When
  the transcript yields no word the score is exactly 100. Otherwise the score is within 0.1
  of \<open>100 - repetitions / words * 20 - self_corrections / words * 15 - hesitation_rate * 5
  - incomplete * 3\<close> clamped to \<open>[0, 100]\<close>, taken over the returned counts and the returned
  hesitation rate: the score is that value rounded to one decimal, and the hesitation rate
  is itself rounded to two.
\<close>

theorem analyze_fluency_score:
  "\<exists>f. analyze_fluency ratio text d segs = Some f \<and>
     0 \<le> fluency_score f \<and> fluency_score f \<le> 100 \<and>
     (extract_words text = [] \<longrightarrow> fluency_score f = 100) \<and>
     (extract_words text \<noteq> [] \<longrightarrow>
        \<bar>fluency_score f
          - max 0 (min 100 (100
               - of_nat (repetition_count f) / of_nat (length (extract_words text)) * 20
               - of_nat (self_corrections_count f) / of_nat (length (extract_words text)) * 15
               - hesitation_rate f * 5
               - of_nat (incomplete_sentences f) * 3))\<bar> < 1 / 10)"
proof -
  define h where "h = hesitation_rate_exact d segs"
  obtain f where f: "analyze_fluency ratio text d segs = Some f"
    and hr: "hesitation_rate f = py_round h 2"
    and fs: "fluency_score f =
       (if extract_words text = [] then 100
        else py_round (max 0 (min 100 (100
               - of_nat (repetition_count f) / of_nat (length (extract_words text)) * 20
               - of_nat (self_corrections_count f) / of_nat (length (extract_words text)) * 15
               - h * 5
               - of_nat (incomplete_sentences f) * 3))) 1)"
    unfolding h_def using analyze_fluency_closed by blast
  define base :: rat where "base = 100
       - of_nat (repetition_count f) / of_nat (length (extract_words text)) * 20
       - of_nat (self_corrections_count f) / of_nat (length (extract_words text)) * 15"
  define k :: rat where "k = of_nat (incomplete_sentences f) * 3"
  let ?exact = "max 0 (min 100 (base - h * 5 - k))"
  let ?shown = "max 0 (min 100 (base - hesitation_rate f * 5 - k))"
  have range: "0 \<le> fluency_score f \<and> fluency_score f \<le> 100"
    unfolding fs by (simp add: py_round_nonneg py_round_le_100)
  have close: "\<bar>fluency_score f - ?shown\<bar> < 1 / 10" if "extract_words text \<noteq> []"
  proof -
    have v: "fluency_score f = py_round ?exact 1"
      using that unfolding fs base_def k_def by simp
    have r1: "\<bar>py_round ?exact 1 - ?exact\<bar> \<le> 1 / 20"
      using py_round_error [of ?exact 1] by simp
    have "\<bar>py_round h 2 - h\<bar> \<le> 1 / 200"
      using py_round_error [of h 2] by simp
    then have "\<bar>(base - h * 5 - k) - (base - hesitation_rate f * 5 - k)\<bar> \<le> 1 / 40"
      unfolding hr by (simp add: abs_if split: if_splits)
    then have r2: "\<bar>?exact - ?shown\<bar> \<le> 1 / 40"
      using clamp_lipschitz [of "base - h * 5 - k" "base - hesitation_rate f * 5 - k"]
      by linarith
    show ?thesis
      unfolding v using r1 r2 by (rule abs_close_tenth)
  qed
  have zero: "fluency_score f = 100" if "extract_words text = []"
    using that unfolding fs by simp
  show ?thesis
  proof (intro exI [of _ f] conjI impI)
    show "analyze_fluency ratio text d segs = Some f"
      by (rule f)
    show "0 \<le> fluency_score f" "fluency_score f \<le> 100"
      using range by simp_all
    show "fluency_score f = 100" if "extract_words text = []"
      using that by (rule zero)
    show "\<bar>fluency_score f
          - max 0 (min 100 (100
               - of_nat (repetition_count f) / of_nat (length (extract_words text)) * 20
               - of_nat (self_corrections_count f) / of_nat (length (extract_words text)) * 15
               - hesitation_rate f * 5
               - of_nat (incomplete_sentences f) * 3))\<bar> < 1 / 10"
      if "extract_words text \<noteq> []"
      using close [OF that] unfolding base_def k_def .
  qed
qed

theorem analyze_fluency_score_witness:
  "extract_words ''um um. bom dia'' = [''um'', ''um'', ''bom'', ''dia'']
   \<and> analyze_fluency (\<lambda>a b. 0) ''um um. bom dia'' 30
       (Some [\<lparr>seg_start = Some 0, seg_end = Some 1\<rparr>,
              \<lparr>seg_start = Some 4, seg_end = Some 5\<rparr>])
     = Some \<lparr>fluency_score = 79, hesitation_rate = 2, repetition_count = 1,
              self_corrections_count = 0, incomplete_sentences = 2\<rparr>
   \<and> \<bar>79 - max 0 (min 100 (100 - 1 / 4 * 20 - 0 / 4 * 15 - 2 * 5 - 2 * 3))\<bar> < (1 / 10 :: rat)
   \<and> extract_words ''12:30!'' = []
   \<and> analyze_fluency (\<lambda>a b. 0) ''12:30!'' 30 None
     = Some \<lparr>fluency_score = 100, hesitation_rate = 0, repetition_count = 0,
              self_corrections_count = 0, incomplete_sentences = 1\<rparr>"
proof -
  let ?segs = "Some [\<lparr>seg_start = Some 0, seg_end = Some 1\<rparr>,
              \<lparr>seg_start = Some 4, seg_end = Some 5\<rparr>]"
  have w: "extract_words ''um um. bom dia'' = [''um'', ''um'', ''bom'', ''dia'']"
    "extract_words ''12:30!'' = []"
    by code_simp+
  have a: "analyze_fluency (\<lambda>a b. 0) ''um um. bom dia'' 30 ?segs
     = Some \<lparr>fluency_score = 79, hesitation_rate = 2, repetition_count = 1,
              self_corrections_count = 0, incomplete_sentences = 2\<rparr>"
    by code_simp
  have b: "analyze_fluency (\<lambda>a b. 0) ''12:30!'' 30 None
     = Some \<lparr>fluency_score = 100, hesitation_rate = 0, repetition_count = 0,
              self_corrections_count = 0, incomplete_sentences = 1\<rparr>"
    by code_simp
  have r: "\<bar>79 - max 0 (min 100 (100 - 1 / 4 * 20 - 0 / 4 * 15 - 2 * 5 - 2 * 3))\<bar> < (1 / 10 :: rat)"
    by simp
  obtain f where "analyze_fluency (\<lambda>a b. 0) ''um um. bom dia'' 30 ?segs = Some f"
    and "fluency_score f \<le> 100"
    using analyze_fluency_score [of "\<lambda>a b. 0" "''um um. bom dia''" 30 ?segs] by blast
  moreover obtain g where "analyze_fluency (\<lambda>a b. 0) ''12:30!'' 30 None = Some g"
    and "extract_words ''12:30!'' = [] \<longrightarrow> fluency_score g = 100"
    using analyze_fluency_score [of "\<lambda>a b. 0" "''12:30!''" 30 None] by blast
  ultimately show ?thesis
    using w a b r by simp
qed

text \<open>
  Without the rounding the formula is not the returned score: three times the same word
  gives a clamped value of \<open>260 / 3\<close> and a returned score of 86.7. (All adjacent words are
  equal here, so the similarity ratio is never consulted.)
\<close>

theorem fluency_score_is_rounded:
  "analyze_fluency (\<lambda>a b. 0) ''a a a'' 10 None
     = Some \<lparr>fluency_score = 867 / 10, hesitation_rate = 0, repetition_count = 2,
              self_corrections_count = 0, incomplete_sentences = 0\<rparr>
   \<and> extract_words ''a a a'' = [''a'', ''a'', ''a'']
   \<and> max 0 (min 100 (100 - 2 / 3 * 20 - 0 / 3 * 15 - 0 * 5 - 0 * 3)) = (260 / 3 :: rat)
   \<and> (260 / 3 :: rat) \<noteq> 867 / 10"
  by code_simp

subsection \<open>Speech rate\<close>

lemma speaking_le_articulation:
  assumes "analyze_speech_rate text d lang segs = Some m"
    and "1 / 10 \<le> (if d \<le> 0 then 1 else d)"
  shows "speaking_rate_spm m \<le> articulation_rate_spm m"
proof -
  define T where "T = (if d \<le> 0 then 1 else d)"
  define P where "P = sum_list (filter (\<lambda>gap. gap \<ge> MIN_PAUSE_DURATION) (segment_gaps segs))"
  define S where "S = max (1 / 10) (T - P)"
  define n :: rat where "n = of_nat (count_syllables_text text lang)"
  have P: "0 \<le> P"
    unfolding P_def by (rule counted_gaps_nonneg)
  have T: "1 / 10 \<le> T"
    using assms(2) by (simp add: T_def)
  have S: "0 < S" "S \<le> T"
    using P T by (auto simp: S_def)
  have n: "0 \<le> n"
    by (simp add: n_def)
  have "n / T \<le> n / S"
    using S n by (intro divide_left_mono) auto
  then have le: "n / T * 60 \<le> n / S * 60"
    by (rule mult_right_mono) simp
  have "speaking_rate_spm m = py_round (n / T * 60) 1"
    and "articulation_rate_spm m = py_round (n / S * 60) 1"
    using assms(1) unfolding analyze_speech_rate_Some
    by (auto simp: Let_def T_def P_def S_def n_def)
  then show ?thesis
    using py_round_mono [OF le, of 1] by simp
qed

text \<open>
  C4 (as amended). For every input to the rate analyzer whose pause duration is positive
  and whose total duration, after the normalisation of non-positive values to 1, is at least
  0.1 seconds, the returned articulation rate is at least the returned speaking rate: the
  ordering survives the rounding of both fields.
\<close>

theorem articulation_ge_speaking:
  assumes "analyze_speech_rate text d lang segs = Some m"
    and "0 < pause_duration_seconds m"
    and "1 / 10 \<le> (if d \<le> 0 then 1 else d)"
  shows "speaking_rate_spm m \<le> articulation_rate_spm m"
  using assms(1) assms(3) by (rule speaking_le_articulation)

theorem articulation_ge_speaking_witness:
  "analyze_speech_rate ''a a'' 10 ''pt-BR''
     (Some [\<lparr>seg_start = Some 0, seg_end = Some 1\<rparr>,
            \<lparr>seg_start = Some (3 / 2), seg_end = Some 2\<rparr>])
     = Some \<lparr>speaking_rate_spm = 12, articulation_rate_spm = 63 / 5, words_per_minute = 12,
              total_duration_seconds = 10, speech_duration_seconds = 19 / 2,
              pause_duration_seconds = 1 / 2, classification = ''slow''\<rparr>
   \<and> (12 :: rat) \<le> 63 / 5"
proof -
  let ?m = "\<lparr>speaking_rate_spm = 12, articulation_rate_spm = 63 / 5, words_per_minute = 12,
              total_duration_seconds = 10, speech_duration_seconds = 19 / 2,
              pause_duration_seconds = 1 / 2, classification = ''slow''\<rparr>"
  have a: "analyze_speech_rate ''a a'' 10 ''pt-BR''
     (Some [\<lparr>seg_start = Some 0, seg_end = Some 1\<rparr>,
            \<lparr>seg_start = Some (3 / 2), seg_end = Some 2\<rparr>]) = Some ?m"
    by code_simp
  have b: "0 < pause_duration_seconds ?m"
    by simp
  have c: "(1::rat) / 10 \<le> (if (10::rat) \<le> 0 then 1 else 10)"
    by simp
  have "speaking_rate_spm ?m \<le> articulation_rate_spm ?m"
    using articulation_ge_speaking [OF a b c] .
  then show ?thesis
    using a by simp
qed

text \<open>
  Below 0.1 seconds the floor \<^verbatim>\<open>max(0.1, total_duration - pause_duration)\<close> makes the speech
  duration longer than the total duration, and the ordering is reversed.
\<close>

theorem articulation_below_speaking:
  "analyze_speech_rate ''a'' (1 / 20) ''pt-BR''
     (Some [\<lparr>seg_start = Some 0, seg_end = Some 1\<rparr>,
            \<lparr>seg_start = Some (3 / 2), seg_end = Some 2\<rparr>])
     = Some \<lparr>speaking_rate_spm = 1200, articulation_rate_spm = 600, words_per_minute = 1200,
              total_duration_seconds = 1 / 20, speech_duration_seconds = 1 / 10,
              pause_duration_seconds = 1 / 2, classification = ''fast''\<rparr>
   \<and> (0 :: rat) < 1 / 2 \<and> \<not> (600 :: rat) \<ge> 1200"
  by code_simp

subsection \<open>English syllables\<close>

lemma en_syllable_loop_runs:
  "en_syllable_loop cs syl prev =
     (if cs \<noteq> [] \<and> last cs = CHR ''e'' \<and> syl + vowel_run_starts prev (butlast cs) > 0
      then syl + vowel_run_starts prev (butlast cs)
      else syl + vowel_run_starts prev cs)"
proof (induction cs arbitrary: syl prev)
  case Nil
  show ?case by simp
next
  case (Cons c cs)
  show ?case
  proof (cases "cs = []")
    case True
    then show ?thesis
      by (auto simp: ENGLISH_VOWELS_def)
  next
    case False
    then show ?thesis
      using Cons.IH by (auto simp: Let_def)
  qed
qed

lemma en_syllable_loop_silent_e: "en_syllable_loop word 0 False = silent_e_runs word"
  unfolding en_syllable_loop_runs silent_e_runs_def by (simp add: Suc_le_eq)

lemma count_syllables_english_closed:
  "count_syllables_english w =
     max 1 (silent_e_runs (lower w) + (if le_ending (lower w) then 1 else 0))"
  by (simp add: count_syllables_english_def Let_def en_syllable_loop_silent_e)


lemma exception_words_one:
  "list_all (\<lambda>v. max 1 (silent_e_runs v + (if le_ending v then 1 else 0)) = 1 \<and> \<not> ed_ending v)
     exception_words"
  by code_simp

text \<open>
  C5 (as amended). The English syllable counter used by the engine counts vowel runs over
  \<open>{a, e, i, o, u, y}\<close>, does not let a trailing \<open>e\<close> start a new run when the count is
  already at least 1, adds one syllable for an \<open>-le\<close> ending preceded by a non-vowel, and
  returns at least 1; the listed exception words come out as 1 syllable (without a table).
  It applies no \<open>-ed\<close> correction: it agrees with the counter of the specification on every
  word to which the \<open>-ed\<close> rule does not apply.
\<close>

theorem count_syllables_english_rules:
  "count_syllables_english w =
     max 1 (silent_e_runs (lower w) + (if le_ending (lower w) then 1 else 0)) \<and>
   1 \<le> count_syllables_english w \<and>
   (lower w \<in> set exception_words \<longrightarrow> count_syllables_english w = 1) \<and>
   (\<not> ed_ending (lower w) \<longrightarrow> int (count_syllables_english w) = claimed_syllables_english w)"
proof -
  let ?v = "lower w"
  have closed: "count_syllables_english w =
     max 1 (silent_e_runs ?v + (if le_ending ?v then 1 else 0))"
    by (rule count_syllables_english_closed)
  have floor: "1 \<le> count_syllables_english w"
    unfolding closed by simp
  have exc: "count_syllables_english w = 1" if "?v \<in> set exception_words"
    using that exception_words_one unfolding closed list_all_iff by blast
  have "int (count_syllables_english w) = claimed_syllables_english w" if "\<not> ed_ending ?v"
  proof (cases "?v \<in> set exception_words")
    case True
    then show ?thesis
      using exc by (simp add: claimed_syllables_english_def)
  next
    case False
    then show ?thesis
      using that unfolding closed by (auto simp: claimed_syllables_english_def max_def)
  qed
  then show ?thesis
    using closed floor exc by blast
qed

theorem count_syllables_english_rules_witness:
  "lower ''Have'' \<in> set exception_words \<and> \<not> ed_ending (lower ''Have'')
   \<and> count_syllables_english ''Have'' = 1 \<and> claimed_syllables_english ''Have'' = 1
   \<and> count_syllables_english ''table'' = 2 \<and> claimed_syllables_english ''table'' = 2
   \<and> silent_e_runs ''table'' = 1 \<and> le_ending ''table''"
proof -
  have h: "lower ''Have'' \<in> set exception_words" "\<not> ed_ending (lower ''Have'')"
    by code_simp+
  have c: "claimed_syllables_english ''Have'' = 1"
    "count_syllables_english ''table'' = 2" "claimed_syllables_english ''table'' = 2"
    "silent_e_runs ''table'' = 1" "le_ending ''table''"
    by code_simp+
  have "count_syllables_english ''Have'' = 1"
    using count_syllables_english_rules [of "''Have''"] h by blast
  then show ?thesis
    using h c by simp
qed

text \<open>
  The \<open>-ed\<close> correction exists in the counter of \<^verbatim>\<open>utils/text.py\<close> only: for \<^verbatim>\<open>"walked"\<close>
  the engine counts 2 syllables, the specified counter and \<^verbatim>\<open>utils/text.py\<close> count 1.
\<close>

theorem count_syllables_english_no_ed_rule:
  "count_syllables_english ''walked'' = 2
   \<and> claimed_syllables_english ''walked'' = 1
   \<and> text_count_syllables_english ''walked'' = 1
   \<and> ed_ending ''walked''
   \<and> int (count_syllables_english ''walked'') \<noteq> claimed_syllables_english ''walked''"
  by code_simp

subsection \<open>Non-positive durations\<close>

text \<open>
  C6 (as amended). A call with \<open>total_duration_seconds \<le> 0\<close> is never rejected. The rate
  analyzer normalises the duration to 1.0: its whole result (speaking rate, articulation
  rate, words per minute, durations) is that of a call with duration 1.0. The pause and
  fluency analyzers receive the duration as given and do not normalise it: they report
  \<open>pauses_per_minute\<close>, \<open>pause_ratio\<close> and \<open>hesitation_rate\<close> as 0.
\<close>

theorem nonpositive_duration_handling:
  assumes "d \<le> 0"
  shows "\<exists>r r1. analyze_comprehensive ratio text d segs hint = Some r \<and>
     analyze_comprehensive ratio text 1 segs hint = Some r1 \<and>
     speech_rate r = speech_rate r1 \<and>
     total_duration_seconds (speech_rate r) = 1 \<and>
     pauses_per_minute (pauses r) = 0 \<and> pause_ratio (pauses r) = 0 \<and>
     hesitation_rate (fluency r) = 0"
proof -
  obtain l sr p v f where
    l: "hinted_language text hint = Some l"
    and sr: "analyze_speech_rate text d (detected_language l) segs = Some sr"
    and p: "analyze_pauses d segs = Some p"
    and f: "analyze_fluency ratio text d segs = Some f"
    and r: "analyze_comprehensive ratio text d segs hint = Some
       \<lparr>language = l, speech_rate = sr, pauses = p, vocabulary = v, fluency = f,
        overall_score =
          py_round (score_speech_rate sr (detected_language l) * (25 / 100)
                    + score_pauses p * (15 / 100) + score_vocabulary v * (25 / 100)
                    + fluency_score f * (35 / 100)) 1,
        feedback = fst (generate_feedback l sr p v f),
        recommendations = snd (generate_feedback l sr p v f)\<rparr>"
    using analyze_comprehensive_Some [of "text" hint d segs ratio] by blast
  obtain l1 sr1 p1 v1 f1 where
    l1: "hinted_language text hint = Some l1"
    and sr1: "analyze_speech_rate text 1 (detected_language l1) segs = Some sr1"
    and r1: "analyze_comprehensive ratio text 1 segs hint = Some
       \<lparr>language = l1, speech_rate = sr1, pauses = p1, vocabulary = v1, fluency = f1,
        overall_score =
          py_round (score_speech_rate sr1 (detected_language l1) * (25 / 100)
                    + score_pauses p1 * (15 / 100) + score_vocabulary v1 * (25 / 100)
                    + fluency_score f1 * (35 / 100)) 1,
        feedback = fst (generate_feedback l1 sr1 p1 v1 f1),
        recommendations = snd (generate_feedback l1 sr1 p1 v1 f1)\<rparr>"
    using analyze_comprehensive_Some [of "text" hint 1 segs ratio] by blast
  have "l1 = l"
    using l l1 by simp
  have "analyze_speech_rate text d (detected_language l) segs
      = analyze_speech_rate text 1 (detected_language l) segs"
    unfolding analyze_speech_rate_Some using assms by simp
  then have same: "sr = sr1"
    using sr sr1 \<open>l1 = l\<close> by simp
  have dur: "total_duration_seconds sr = 1"
    using sr assms py_round_of_int [of 1 2] unfolding analyze_speech_rate_Some
    by (auto simp: Let_def)
  have pz: "pauses_per_minute p = 0 \<and> pause_ratio p = 0"
    using analyze_pauses_rates [of d segs] p assms by (auto simp: py_round_0)
  have hz: "hesitation_rate f = 0"
    using analyze_fluency_fields [of ratio "text" d segs] f assms
    by (auto simp: hesitation_rate_exact_def py_round_0)
  show ?thesis
    unfolding r r1 using same dur pz hz by simp
qed

theorem nonpositive_duration_handling_witness:
  "(0 :: rat) \<le> 0
   \<and> map_option (\<lambda>r. (speech_rate r, pauses_per_minute (pauses r), pause_ratio (pauses r),
                        hesitation_rate (fluency r)))
       (analyze_comprehensive (\<lambda>a b. 0) ''bom dia'' 0
          (Some [\<lparr>seg_start = Some 0, seg_end = Some 1\<rparr>,
                 \<lparr>seg_start = Some 4, seg_end = Some 5\<rparr>]) None)
     = Some (\<lparr>speaking_rate_spm = 120, articulation_rate_spm = 1200, words_per_minute = 120,
               total_duration_seconds = 1, speech_duration_seconds = 1 / 10,
               pause_duration_seconds = 3, classification = ''fast''\<rparr>, 0, 0, 0)
   \<and> map_option speech_rate
       (analyze_comprehensive (\<lambda>a b. 0) ''bom dia'' 1
          (Some [\<lparr>seg_start = Some 0, seg_end = Some 1\<rparr>,
                 \<lparr>seg_start = Some 4, seg_end = Some 5\<rparr>]) None)
     = Some \<lparr>speaking_rate_spm = 120, articulation_rate_spm = 1200, words_per_minute = 120,
               total_duration_seconds = 1, speech_duration_seconds = 1 / 10,
               pause_duration_seconds = 3, classification = ''fast''\<rparr>"
proof -
  let ?segs = "Some [\<lparr>seg_start = Some 0, seg_end = Some 1\<rparr>,
                     \<lparr>seg_start = Some 4, seg_end = Some 5\<rparr>]"
  let ?sr = "\<lparr>speaking_rate_spm = 120, articulation_rate_spm = 1200, words_per_minute = 120,
               total_duration_seconds = 1, speech_duration_seconds = 1 / 10,
               pause_duration_seconds = 3, classification = ''fast''\<rparr>"
  have a: "map_option (\<lambda>r. (speech_rate r, pauses_per_minute (pauses r), pause_ratio (pauses r),
                        hesitation_rate (fluency r)))
       (analyze_comprehensive (\<lambda>a b. 0) ''bom dia'' 0 ?segs None) = Some (?sr, 0, 0, 0)"
    by code_simp
  have b: "map_option speech_rate
       (analyze_comprehensive (\<lambda>a b. 0) ''bom dia'' 1 ?segs None) = Some ?sr"
    by code_simp
  have h: "(0 :: rat) \<le> 0"
    by simp
  obtain r r1 where "analyze_comprehensive (\<lambda>a b. 0) ''bom dia'' 0 ?segs None = Some r"
    and "analyze_comprehensive (\<lambda>a b. 0) ''bom dia'' 1 ?segs None = Some r1"
    and "speech_rate r = speech_rate r1"
    using nonpositive_duration_handling [OF h, of "\<lambda>a b. 0" "''bom dia''" ?segs None] by blast
  then show ?thesis
    using a b by simp
qed

text \<open>
  Pauses per minute and hesitation rate are therefore not computed as if the duration were
  1.0: with one gap of 3 seconds they are 0 for duration 0 and 60 for duration 1.
\<close>

theorem nonpositive_duration_not_normalized_for_pauses:
  "map_option (\<lambda>r. (pauses_per_minute (pauses r), hesitation_rate (fluency r)))
       (analyze_comprehensive (\<lambda>a b. 0) ''bom dia'' 0
          (Some [\<lparr>seg_start = Some 0, seg_end = Some 1\<rparr>,
                 \<lparr>seg_start = Some 4, seg_end = Some 5\<rparr>]) None)
     = Some (0, 0)
   \<and> map_option (\<lambda>r. (pauses_per_minute (pauses r), hesitation_rate (fluency r)))
       (analyze_comprehensive (\<lambda>a b. 0) ''bom dia'' 1
          (Some [\<lparr>seg_start = Some 0, seg_end = Some 1\<rparr>,
                 \<lparr>seg_start = Some 4, seg_end = Some 5\<rparr>]) None)
     = Some (60, 60)
   \<and> (0 :: rat) \<noteq> 60"
  by code_simp


subsection \<open>Vocabulary\<close>

lemma ratio_in_unit:
  fixes k n :: nat
  assumes "k \<le> n" and "0 < n"
  shows "0 \<le> (of_nat k :: rat) / of_nat n \<and> (of_nat k :: rat) / of_nat n \<le> 1"
  using assms by simp

text \<open>
  C7. For every transcript the vocabulary analyzer returns without raising,
  \<open>unique_words \<le> total_words\<close> and the type-token ratio lies in \<open>[0, 1]\<close>; for a
  transcript yielding no word every vocabulary metric is zero. The helper
  \<^verbatim>\<open>calculate_ttr\<close> returns a ratio in \<open>[0, 1]\<close> for every word list as well.
\<close>

theorem analyze_vocabulary_bounds:
  "\<exists>v t. analyze_vocabulary text lang = Some v \<and>
     unique_words v \<le> total_words v \<and>
     0 \<le> vocabulary_richness v \<and> vocabulary_richness v \<le> 1 \<and>
     (extract_words text = [] \<longrightarrow> v = empty_vocabulary) \<and>
     calculate_ttr ws = Some t \<and> 0 \<le> t \<and> t \<le> 1"
proof -
  have ttr: "\<exists>t. calculate_ttr ws = Some t \<and> 0 \<le> t \<and> t \<le> 1"
  proof (cases "ws = []")
    case True
    then show ?thesis by (simp add: calculate_ttr_def)
  next
    case False
    then have "0 < length ws" by simp
    then show ?thesis
      using False ratio_in_unit [OF card_length [of ws]]
      by (simp add: calculate_ttr_def fdiv_def)
  qed
  have voc: "\<exists>v. analyze_vocabulary text lang = Some v \<and>
     unique_words v \<le> total_words v \<and>
     0 \<le> vocabulary_richness v \<and> vocabulary_richness v \<le> 1 \<and>
     (extract_words text = [] \<longrightarrow> v = empty_vocabulary)"
  proof (cases "extract_words text = []")
    case True
    then show ?thesis
      by (simp add: analyze_vocabulary_def empty_vocabulary_def)
  next
    case False
    let ?w = "extract_words text"
    have n: "0 < length ?w" using False by simp
    have r: "0 \<le> (of_nat (card (set ?w)) :: rat) / of_nat (length ?w)"
      "(of_nat (card (set ?w)) :: rat) / of_nat (length ?w) \<le> 1"
      using ratio_in_unit [OF card_length [of ?w] n] by simp_all
    show ?thesis
      using False r
      by (simp add: analyze_vocabulary_def Let_def fdiv_def card_length
          py_round_nonneg py_round_le_1 split: prod.split)
  qed
  show ?thesis
    using ttr voc by blast
qed

theorem analyze_vocabulary_bounds_witness:
  "extract_words ''12 + 34 = 46'' = []
   \<and> analyze_vocabulary ''12 + 34 = 46'' ''en-US'' = Some empty_vocabulary
   \<and> unique_words empty_vocabulary \<le> total_words empty_vocabulary
   \<and> vocabulary_richness empty_vocabulary = 0
   \<and> calculate_ttr [''a'', ''b'', ''a''] = Some (2 / 3)"
proof -
  have e: "extract_words ''12 + 34 = 46'' = []"
    by code_simp
  have t: "calculate_ttr [''a'', ''b'', ''a''] = Some (2 / 3)"
    by code_simp
  obtain v where "analyze_vocabulary ''12 + 34 = 46'' ''en-US'' = Some v"
    and "unique_words v \<le> total_words v"
    and "extract_words ''12 + 34 = 46'' = [] \<longrightarrow> v = empty_vocabulary"
    using analyze_vocabulary_bounds [of "''12 + 34 = 46''" "''en-US''" "[]"] by blast
  then show ?thesis
    using e t by (simp add: empty_vocabulary_def)
qed

subsection \<open>Pauses\<close>




subsection \<open>Word extraction\<close>

















subsection \<open>Feedback\<close>

lemma pace_feedback_line: "\<exists>x. fst (pace_feedback sr) = [x] \<and> is_pace_line x"
  by (simp add: pace_feedback_def is_pace_line_def)

lemma rate_feedback_line: "\<exists>x. rate_feedback ideal sr = [x] \<and> is_rate_line x"
  by (cases ideal) (simp add: rate_feedback_def Let_def)

lemma fluency_level_feedback_line:
  "\<exists>x. fluency_level_feedback f = [x] \<and> is_fluency_level_line x"
  by (simp add: fluency_level_feedback_def is_fluency_level_line_def)

lemma feedback_in_shape:
  "\<exists>pace rate mid level rest.
     fst (feedback_in ui ideal ld sr p v f) =
       (ui, LanguageDetected (confidence ld)) # (ui, pace) # (ui, rate) # mid
         @ (ui, level) # rest \<and>
     is_pace_line pace \<and> is_rate_line rate \<and> is_fluency_level_line level"
proof -
  obtain pace where 1: "fst (pace_feedback sr) = [pace]" "is_pace_line pace"
    using pace_feedback_line by blast
  obtain rate where 2: "rate_feedback ideal sr = [rate]" "is_rate_line rate"
    using rate_feedback_line by blast
  obtain level where 3: "fluency_level_feedback f = [level]" "is_fluency_level_line level"
    using fluency_level_feedback_line by blast
  let ?mid = "map (Pair ui) (fst (pause_feedback p sr) @ long_pause_feedback p
      @ fst (richness_feedback v) @ fst (filler_feedback v) @ complex_feedback v)"
  let ?rest = "map (Pair ui) (fst (repetition_feedback f) @ fst (correction_feedback f))"
  have "fst (feedback_in ui ideal ld sr p v f) =
       (ui, LanguageDetected (confidence ld)) # (ui, pace) # (ui, rate) # ?mid
         @ (ui, level) # ?rest"
    by (simp add: feedback_in_def 1 2 3)
  then show ?thesis
    using 1 2 3 by blast
qed

text \<open>
  C10. For all metrics the feedback list of \<open>generate_feedback\<close> starts with the language
  line, a pace line and a words-per-minute line and contains a fluency-level line later on:
  it has at least four entries.
\<close>

theorem generate_feedback_lines:
  "\<exists>pace rate mid level rest.
     fst (generate_feedback ld sr p v f) =
       (feedback_language ld, LanguageDetected (confidence ld))
         # (feedback_language ld, pace) # (feedback_language ld, rate) # mid
         @ (feedback_language ld, level) # rest \<and>
     is_pace_line pace \<and> is_rate_line rate \<and> is_fluency_level_line level \<and>
     4 \<le> length (fst (generate_feedback ld sr p v f))"
proof -
  let ?ui = "feedback_language ld"
  have g: "generate_feedback ld sr p v f =
      feedback_in ?ui (IDEAL_SPEAKING_RATE (detected_language ld)) ld sr p v f"
    by (simp add: generate_feedback_def feedback_language_def Let_def)
  obtain pace rate mid level rest where
    s: "fst (feedback_in ?ui (IDEAL_SPEAKING_RATE (detected_language ld)) ld sr p v f) =
       (?ui, LanguageDetected (confidence ld)) # (?ui, pace) # (?ui, rate) # mid
         @ (?ui, level) # rest"
    and k: "is_pace_line pace" "is_rate_line rate" "is_fluency_level_line level"
    using feedback_in_shape by blast
  have "4 \<le> length (fst (generate_feedback ld sr p v f))"
    unfolding g s by simp
  then show ?thesis
    unfolding g using s k by blast
qed

theorem generate_feedback_lines_witness:
  "fst (generate_feedback
     \<lparr>detected_language = ''en-US'', confidence = 99 / 100, portuguese_score = 0,
      english_score = 284 / 25\<rparr>
     \<lparr>speaking_rate_spm = 48, articulation_rate_spm = 48, words_per_minute = 48,
      total_duration_seconds = 10, speech_duration_seconds = 10, pause_duration_seconds = 0,
      classification = ''slow''\<rparr>
     \<lparr>total_pauses = 0, total_pause_duration = 0, average_pause_duration = 0,
      longest_pause = 0, pauses_per_minute = 0, pause_ratio = 0\<rparr>
     \<lparr>total_words = 8, unique_words = 4, vocabulary_richness = 1 / 2,
      average_word_length = 4, complex_words_count = 0, complex_words_ratio = 0,
      filler_words_count = 0, filler_words_ratio = 0, lexical_density = 3 / 8\<rparr>
     \<lparr>fluency_score = 100, hesitation_rate = 0, repetition_count = 0,
      self_corrections_count = 0, incomplete_sentences = 0\<rparr>)
   = [(English, LanguageDetected (99 / 100)), (English, PaceSlow),
      (English, RateBelowIdeal 48 150 180), (English, ExcellentFluency)]
   \<and> is_pace_line PaceSlow \<and> is_rate_line (RateBelowIdeal 48 150 180)
   \<and> is_fluency_level_line ExcellentFluency"
proof -
  let ?ld = "\<lparr>detected_language = ''en-US'', confidence = 99 / 100, portuguese_score = 0,
      english_score = 284 / 25\<rparr>"
  let ?sr = "\<lparr>speaking_rate_spm = 48, articulation_rate_spm = 48, words_per_minute = 48,
      total_duration_seconds = 10, speech_duration_seconds = 10, pause_duration_seconds = 0,
      classification = ''slow''\<rparr>"
  let ?p = "\<lparr>total_pauses = 0, total_pause_duration = 0, average_pause_duration = 0,
      longest_pause = 0, pauses_per_minute = 0, pause_ratio = 0\<rparr>"
  let ?v = "\<lparr>total_words = 8, unique_words = 4, vocabulary_richness = 1 / 2,
      average_word_length = 4, complex_words_count = 0, complex_words_ratio = 0,
      filler_words_count = 0, filler_words_ratio = 0, lexical_density = 3 / 8\<rparr>"
  let ?f = "\<lparr>fluency_score = 100, hesitation_rate = 0, repetition_count = 0,
      self_corrections_count = 0, incomplete_sentences = 0\<rparr>"
  have a: "fst (generate_feedback ?ld ?sr ?p ?v ?f)
     = [(English, LanguageDetected (99 / 100)), (English, PaceSlow),
        (English, RateBelowIdeal 48 150 180), (English, ExcellentFluency)]"
    by code_simp
  have b: "is_pace_line PaceSlow \<and> is_rate_line (RateBelowIdeal 48 150 180)
     \<and> is_fluency_level_line ExcellentFluency"
    by (simp add: is_pace_line_def is_fluency_level_line_def)
  have "4 \<le> length (fst (generate_feedback ?ld ?sr ?p ?v ?f))"
    using generate_feedback_lines [of ?ld ?sr ?p ?v ?f] by blast
  then show ?thesis
    using a b by simp
qed

end
